theory Spec2Isabelle
  imports Complex_Main
begin

section \<open>JavaScript values seen by the poll client\<close>

text \<open>
  The client functions of \<^verbatim>\<open>src/lib/poll-api.ts\<close>, \<^verbatim>\<open>src/submitVote.ts\<close> and
  \<^verbatim>\<open>src/fetchPollResults.ts\<close> run on the JavaScript built-ins \<^verbatim>\<open>parseInt\<close>,
  \<^verbatim>\<open>JSON.stringify\<close>, \<^verbatim>\<open>fetch\<close>, \<^verbatim>\<open>Response.json\<close>, \<^verbatim>\<open>new Error\<close>,
  \<^verbatim>\<open>String\<close>, property access and truthiness. This section models those built-ins as
  ECMA-262 defines them, on the values the client can meet.

  A JavaScript string is modelled by a \<^typ>\<open>string\<close> whose characters are the code units
  \<open>0..255\<close>; strings with code units above \<open>255\<close> are not represented.
\<close>

subsection \<open>Numbers\<close>

text \<open>
  A Number is an IEEE 754 double: not-a-number, an infinity, or a finite value, given
  here by its exact rational value (\<open>-0\<close> and \<open>+0\<close> are one value: the client never
  tells them apart, \<^verbatim>\<open>String\<close> and \<^verbatim>\<open>JSON.stringify\<close> print both as \<^verbatim>\<open>0\<close>).
\<close>

datatype jsnum = NaN | PosInfinity | NegInfinity | Finite rat

fun bit_length :: "nat \<Rightarrow> nat" where
  "bit_length n = (if n = 0 then 0 else Suc (bit_length (n div 2)))"

declare bit_length.simps [simp del]

text \<open>
  Rounding of a natural number to the nearest double, ties to the even significand
  (53 bits); \<open>None\<close> when the rounded value is \<open>2 ^ 1024\<close> or more, which has no finite
  double.
\<close>

definition round_f64 :: "nat \<Rightarrow> nat option" where
  "round_f64 n =
     (if n < 2 ^ 53 then Some n
      else
        let e = bit_length n - 53;
            q = n div 2 ^ e;
            r = n mod 2 ^ e;
            half = 2 ^ (e - 1);
            q' = (if half < r \<or> (r = half \<and> odd q) then q + 1 else q);
            v = q' * 2 ^ e
        in if v < 2 ^ 1024 then Some v else None)"

text \<open>The Number value of a mathematical integer (the rounding ECMA-262 applies to every numeric result).\<close>

definition Number_of_int :: "int \<Rightarrow> jsnum" where
  "Number_of_int i =
     (case round_f64 (nat \<bar>i\<bar>) of
        None \<Rightarrow> (if i < 0 then NegInfinity else PosInfinity)
      | Some m \<Rightarrow> Finite (of_int (if i < 0 then - int m else int m)))"

subsection \<open>Decimal digits\<close>

definition digit_char :: "nat \<Rightarrow> char" where
  "digit_char d = ''0123456789'' ! d"

fun decimal :: "nat \<Rightarrow> string" where
  "decimal n = (if n < 10 then [digit_char n] else decimal (n div 10) @ [digit_char (n mod 10)])"

declare decimal.simps [simp del]

definition decimal_int :: "int \<Rightarrow> string" where
  "decimal_int i = (if i < 0 then CHR ''-'' # decimal (nat (- i)) else decimal (nat i))"

definition is_digit :: "char \<Rightarrow> bool" where
  "is_digit c = (c \<in> set ''0123456789'')"

definition digit_val :: "char \<Rightarrow> nat" where
  "digit_val c = of_char c - of_char CHR ''0''"

definition digits_value :: "string \<Rightarrow> nat" where
  "digits_value Z = foldl (\<lambda>a c. 10 * a + digit_val c) 0 Z"

text \<open>
  \<^verbatim>\<open>Number::toString\<close> (radix 10). For an integer of magnitude at most \<open>2 ^ 53\<close> the
  shortest digit string that reads back as the same double is its decimal expansion.
  For every other finite value (a fraction, or a double beyond \<open>2 ^ 53\<close>) the digits
  are those of the engine's shortest round-trip printer, taken as the parameter
  \<open>digits\<close>.
\<close>

definition is_exact_int :: "rat \<Rightarrow> bool" where
  "is_exact_int x = (x = of_int \<lfloor>x\<rfloor> \<and> \<bar>x\<bar> \<le> 2 ^ 53)"

definition Number_toString :: "(rat \<Rightarrow> string) \<Rightarrow> jsnum \<Rightarrow> string" where
  "Number_toString digits x =
     (case x of
        NaN \<Rightarrow> ''NaN''
      | PosInfinity \<Rightarrow> ''Infinity''
      | NegInfinity \<Rightarrow> ''-Infinity''
      | Finite v \<Rightarrow> if is_exact_int v then decimal_int \<lfloor>v\<rfloor> else digits v)"

subsection \<open>\<^verbatim>\<open>parseInt(string, 10)\<close>\<close>

text \<open>
  ECMA-262 \<^verbatim>\<open>parseInt\<close> at radix 10: leading white space is trimmed, one sign is read,
  the longest prefix of decimal digits is taken (no \<^verbatim>\<open>0x\<close> prefix is stripped at radix
  10); an empty digit prefix gives \<open>NaN\<close>, otherwise the signed value is rounded to a
  Number. (ECMA-262 lets an engine replace the digits after the 20th significant one by
  zeros; the exact value is used here, as V8 and SpiderMonkey do.) White space among the
  code units \<open>0..255\<close>: TAB, LF, VT, FF, CR, SPACE and NO-BREAK SPACE.
\<close>

definition is_white_space :: "char \<Rightarrow> bool" where
  "is_white_space c = (c \<in> set [CHR 0x09, CHR 0x0A, CHR 0x0B, CHR 0x0C, CHR 0x0D, CHR 0x20, CHR 0xA0])"

definition parseInt10 :: "string \<Rightarrow> jsnum" where
  "parseInt10 inputString =
     (let S = dropWhile is_white_space inputString;
          sign = (if S \<noteq> [] \<and> hd S = CHR ''-'' then - 1 else 1 :: int);
          S' = (if S \<noteq> [] \<and> (hd S = CHR ''+'' \<or> hd S = CHR ''-'') then tl S else S);
          Z = takeWhile is_digit S'
      in if Z = [] then NaN else Number_of_int (sign * int (digits_value Z)))"

subsection \<open>Values, thrown values and conversions\<close>

text \<open>
  The values the client handles: \<^verbatim>\<open>undefined\<close> and the values \<^verbatim>\<open>JSON.parse\<close> builds
  (\<^verbatim>\<open>null\<close>, booleans, numbers, strings, arrays, and plain objects as lists of own
  properties in insertion order).
\<close>

datatype jsval =
    JUndefined
  | JNull
  | JBool bool
  | JNum jsnum
  | JStr string
  | JArr "jsval list"
  | JObj "(string \<times> jsval) list"

text \<open>
  An \<^verbatim>\<open>Error\<close> instance carries the name of its constructor (\<^verbatim>\<open>Error\<close>,
  \<^verbatim>\<open>TypeError\<close>, \<^verbatim>\<open>SyntaxError\<close>, ...) and its message. A thrown value is either an
  instance of \<^verbatim>\<open>Error\<close> or any other value.
\<close>

datatype js_error = JsError (name: string) (message: string)

datatype thrown = ErrorInstance js_error | NonError jsval

definition instanceof_Error :: "thrown \<Rightarrow> bool" where
  "instanceof_Error error = (case error of ErrorInstance _ \<Rightarrow> True | NonError _ \<Rightarrow> False)"

text \<open>
  The \<^verbatim>\<open>TypeError\<close>s the engine raises; their message texts are the engine's
  (these are V8's) and no theorem below depends on them.
\<close>

definition TypeError_not_primitive :: thrown where
  "TypeError_not_primitive =
     ErrorInstance (JsError ''TypeError'' ''Cannot convert object to primitive value'')"

definition TypeError_read_property :: thrown where
  "TypeError_read_property =
     ErrorInstance (JsError ''TypeError'' ''Cannot read properties of null or undefined'')"

text \<open>
  Truthiness (\<^verbatim>\<open>ToBoolean\<close>): \<^verbatim>\<open>undefined\<close>, \<^verbatim>\<open>null\<close>, \<^verbatim>\<open>false\<close>, \<^verbatim>\<open>NaN\<close>,
  zero and the empty string are falsy; every array and object is truthy.
\<close>

fun truthy :: "jsval \<Rightarrow> bool" where
  "truthy JUndefined = False"
| "truthy JNull = False"
| "truthy (JBool b) = b"
| "truthy (JNum x) = (x \<noteq> NaN \<and> x \<noteq> Finite 0)"
| "truthy (JStr s) = (s \<noteq> [])"
| "truthy (JArr _) = True"
| "truthy (JObj _) = True"

text \<open>
  Reading a property \<open>v.key\<close> whose name no built-in prototype defines (such as
  \<^verbatim>\<open>detail\<close>, \<^verbatim>\<open>option_id\<close>, \<^verbatim>\<open>poll_id\<close>, \<^verbatim>\<open>question\<close>, \<^verbatim>\<open>results\<close>): on
  \<^verbatim>\<open>undefined\<close> and \<^verbatim>\<open>null\<close> it throws a \<^verbatim>\<open>TypeError\<close>; on an object it is the own
  property if there is one; on anything else it is \<^verbatim>\<open>undefined\<close>. (The keys of an
  object are distinct; should a list repeat a key, its first entry is read.)
\<close>

fun get_property :: "jsval \<Rightarrow> string \<Rightarrow> thrown + jsval" where
  "get_property JUndefined key = Inl TypeError_read_property"
| "get_property JNull key = Inl TypeError_read_property"
| "get_property (JObj props) key =
     Inr (case map_of props key of None \<Rightarrow> JUndefined | Some v \<Rightarrow> v)"
| "get_property _ key = Inr JUndefined"

text \<open>
  \<^verbatim>\<open>ToString\<close>, which is also what \<^verbatim>\<open>String(v)\<close> and a template literal compute on
  these values. An array joins the strings of its elements with commas, \<^verbatim>\<open>null\<close> and
  \<^verbatim>\<open>undefined\<close> elements giving the empty string. A plain object gives
  \<^verbatim>\<open>[object Object]\<close> through \<^verbatim>\<open>Object.prototype.toString\<close>, unless it has an own
  property \<^verbatim>\<open>toString\<close>: that property is data, not a function, so the conversion to a
  primitive fails with a \<^verbatim>\<open>TypeError\<close>.
\<close>

fun ToString :: "(rat \<Rightarrow> string) \<Rightarrow> jsval \<Rightarrow> thrown + string"
  and join_elements :: "(rat \<Rightarrow> string) \<Rightarrow> jsval list \<Rightarrow> thrown + string"
  and element_string :: "(rat \<Rightarrow> string) \<Rightarrow> jsval \<Rightarrow> thrown + string" where
  "ToString digits JUndefined = Inr ''undefined''"
| "ToString digits JNull = Inr ''null''"
| "ToString digits (JBool b) = Inr (if b then ''true'' else ''false'')"
| "ToString digits (JNum x) = Inr (Number_toString digits x)"
| "ToString digits (JStr s) = Inr s"
| "ToString digits (JArr elements) = join_elements digits elements"
| "ToString digits (JObj props) =
     (if map_of props ''toString'' = None then Inr ''[object Object]''
      else Inl TypeError_not_primitive)"
| "join_elements digits [] = Inr []"
| "join_elements digits [v] = element_string digits v"
| "join_elements digits (v # w # rest) =
     (case element_string digits v of
        Inl t \<Rightarrow> Inl t
      | Inr s \<Rightarrow>
          (case join_elements digits (w # rest) of
             Inl t \<Rightarrow> Inl t
           | Inr r \<Rightarrow> Inr (s @ '','' @ r)))"
| "element_string digits JUndefined = Inr []"
| "element_string digits JNull = Inr []"
| "element_string digits v = ToString digits v"

text \<open>
  \<^verbatim>\<open>new Error(message)\<close>: the message is converted with \<^verbatim>\<open>ToString\<close> unless it is
  \<^verbatim>\<open>undefined\<close>; a failing conversion throws instead of building the error.
\<close>

definition new_Error :: "(rat \<Rightarrow> string) \<Rightarrow> jsval \<Rightarrow> thrown + js_error" where
  "new_Error digits msg =
     (case msg of
        JUndefined \<Rightarrow> Inr (JsError ''Error'' [])
      | _ \<Rightarrow> (case ToString digits msg of
                 Inl t \<Rightarrow> Inl t
               | Inr s \<Rightarrow> Inr (JsError ''Error'' s)))"

text \<open>The statement \<^verbatim>\<open>throw new Error(message)\<close>: it always leaves by a throw.\<close>

definition throw_new_Error :: "(rat \<Rightarrow> string) \<Rightarrow> jsval \<Rightarrow> thrown + 'a" where
  "throw_new_Error digits msg =
     (case new_Error digits msg of
        Inl t \<Rightarrow> Inl t
      | Inr e \<Rightarrow> Inl (ErrorInstance e))"

text \<open>
  \<^verbatim>\<open>String(error)\<close> on a caught value: \<^verbatim>\<open>Error.prototype.toString\<close> for an
  \<^verbatim>\<open>Error\<close> instance, \<^verbatim>\<open>ToString\<close> for any other value.
\<close>

definition String_of :: "(rat \<Rightarrow> string) \<Rightarrow> thrown \<Rightarrow> thrown + string" where
  "String_of digits error =
     (case error of
        ErrorInstance e \<Rightarrow>
          Inr (if name e = [] then message e
               else if message e = [] then name e
               else name e @ '': '' @ message e)
      | NonError v \<Rightarrow> ToString digits v)"

section \<open>The HTTP interface\<close>

text \<open>
  The arguments of one \<^verbatim>\<open>fetch(url, init)\<close> call. A \<^verbatim>\<open>GET\<close> request is built
  without a \<^verbatim>\<open>body\<close> property.
\<close>

record request =
  url :: string
  method' :: string
  headers :: "(string \<times> string) list"
  body :: "string option"

text \<open>
  What the client reads of a \<^verbatim>\<open>Response\<close>: \<^verbatim>\<open>ok\<close>, \<^verbatim>\<open>status\<close>,
  \<^verbatim>\<open>statusText\<close>, and the outcome of \<^verbatim>\<open>await response.json()\<close>, which either throws
  (the body is not JSON, or cannot be read) or gives the decoded value. The field
  \<open>ok\<close> is kept as the client reads it (the Fetch standard sets it for a status in
  \<open>200..299\<close>). Both awaits of a call are taken to settle: the client sets no timeout,
  and a \<^verbatim>\<open>fetch\<close> that never answers is not represented.
\<close>

record response =
  ok :: bool
  status :: nat
  statusText :: string
  json :: "thrown + jsval"

text \<open>
  The host of the client: the global \<^verbatim>\<open>fetch\<close>, which answers a request in a state
  \<open>'w\<close> of the network and the server with a thrown value or a response and a new
  state, and the engine's digit printer for numbers (see \<open>Number_toString\<close>).
\<close>

record 'w host =
  fetch :: "request \<Rightarrow> 'w \<Rightarrow> (thrown + response) \<times> 'w"
  number_digits :: "rat \<Rightarrow> string"

text \<open>
  The world a call runs in: the state behind \<^verbatim>\<open>fetch\<close>, and the list of the
  \<^verbatim>\<open>fetch\<close> calls made so far, oldest first.
\<close>

record 'w world =
  network :: 'w
  fetch_calls :: "request list"

definition await_fetch ::
  "'w host \<Rightarrow> request \<Rightarrow> 'w world \<Rightarrow> (thrown + response) \<times> 'w world" where
  "await_fetch h req s =
     (case fetch h req (network s) of
        (outcome, w) \<Rightarrow> (outcome, \<lparr>network = w, fetch_calls = fetch_calls s @ [req]\<rparr>))"

text \<open>The interface \<^verbatim>\<open>VoteRequest\<close> and \<^verbatim>\<open>JSON.stringify\<close> on it.\<close>

record VoteRequest =
  option_id :: jsnum

definition JSON_number :: "(rat \<Rightarrow> string) \<Rightarrow> jsnum \<Rightarrow> string" where
  "JSON_number digits x =
     (case x of Finite v \<Rightarrow> Number_toString digits x | _ \<Rightarrow> ''null'')"

definition JSON_stringify :: "(rat \<Rightarrow> string) \<Rightarrow> VoteRequest \<Rightarrow> string" where
  \<open>JSON_stringify digits requestBody =
     ''{"option_id":'' @ JSON_number digits (option_id requestBody) @ ''}''\<close>

section \<open>The combined module \<^verbatim>\<open>src/lib/poll-api.ts\<close>\<close>

text \<open>
  Each function takes the host and the world and returns what the promise settles to
  (\<open>Inl\<close> the thrown value of a rejection, \<open>Inr\<close> the value of a fulfilment) with the
  world after the call. The TypeScript interfaces \<^verbatim>\<open>VoteResponse\<close> and
  \<^verbatim>\<open>PollResults\<close> are erased at run time: the value returned is the decoded body,
  whatever it is.
\<close>

definition poll_api_submitVote ::
  "'w host \<Rightarrow> string \<Rightarrow> string \<Rightarrow> string \<Rightarrow> 'w world \<Rightarrow> (thrown + jsval) \<times> 'w world" where
  "poll_api_submitVote h pollId optionId token s =
     (let url = ''http://localhost:8000/polls/'' @ pollId @ ''/vote'';
          requestBody = \<lparr>option_id = parseInt10 optionId\<rparr>
      in case await_fetch h
            \<lparr>url = url,
             method' = ''POST'',
             headers = [(''Content-Type'', ''application/json''),
                        (''Authorization'', ''Bearer '' @ token)],
             body = Some (JSON_stringify (number_digits h) requestBody)\<rparr> s of
        (fetched, s') \<Rightarrow>
          (let attempt =
             (case fetched of
                Inl error \<Rightarrow> Inl error
              | Inr response \<Rightarrow>
                  if \<not> ok response then
                    (let errorMessage =
                           JStr (''HTTP '' @ decimal (status response) @ '': '' @ statusText response);
                         errorMessage =
                           (case json response of
                              Inl _ \<Rightarrow> errorMessage
                            | Inr errorData \<Rightarrow>
                                (case get_property errorData ''detail'' of
                                   Inl _ \<Rightarrow> errorMessage
                                 | Inr detail \<Rightarrow>
                                     if truthy detail then detail else errorMessage))
                     in throw_new_Error (number_digits h) errorMessage)
                  else json response)
           in case attempt of
                Inr voteData \<Rightarrow> (Inr voteData, s')
              | Inl error \<Rightarrow>
                  if instanceof_Error error then (Inl error, s')
                  else (case String_of (number_digits h) error of
                          Inl t \<Rightarrow> (Inl t, s')
                        | Inr str \<Rightarrow>
                            (throw_new_Error (number_digits h) (JStr (''Network error: '' @ str)), s'))))"

definition poll_api_fetchPollResults ::
  "'w host \<Rightarrow> string \<Rightarrow> 'w world \<Rightarrow> (thrown + jsval) \<times> 'w world" where
  "poll_api_fetchPollResults h pollId s =
     (let url = ''http://localhost:8000/polls/'' @ pollId @ ''/results''
      in case await_fetch h
            \<lparr>url = url,
             method' = ''GET'',
             headers = [(''Content-Type'', ''application/json'')],
             body = None\<rparr> s of
        (fetched, s') \<Rightarrow>
          (let attempt =
             (case fetched of
                Inl error \<Rightarrow> Inl error
              | Inr response \<Rightarrow>
                  if \<not> ok response then
                    (let errorMessage =
                           JStr (''HTTP '' @ decimal (status response) @ '': '' @ statusText response);
                         errorMessage =
                           (case json response of
                              Inl _ \<Rightarrow> errorMessage
                            | Inr errorData \<Rightarrow>
                                (case get_property errorData ''detail'' of
                                   Inl _ \<Rightarrow> errorMessage
                                 | Inr detail \<Rightarrow>
                                     if truthy detail then detail else errorMessage))
                     in throw_new_Error (number_digits h) errorMessage)
                  else json response)
           in case attempt of
                Inr pollResults \<Rightarrow> (Inr pollResults, s')
              | Inl error \<Rightarrow>
                  if instanceof_Error error then (Inl error, s')
                  else (case String_of (number_digits h) error of
                          Inl t \<Rightarrow> (Inl t, s')
                        | Inr str \<Rightarrow>
                            (throw_new_Error (number_digits h) (JStr (''Network error: '' @ str)), s'))))"

section \<open>The standalone files\<close>

text \<open>\<^verbatim>\<open>src/submitVote.ts\<close>\<close>

definition submitVote ::
  "'w host \<Rightarrow> string \<Rightarrow> string \<Rightarrow> string \<Rightarrow> 'w world \<Rightarrow> (thrown + jsval) \<times> 'w world" where
  "submitVote h pollId optionId token s =
     (let url = ''http://localhost:8000/polls/'' @ pollId @ ''/vote'';
          requestBody = \<lparr>option_id = parseInt10 optionId\<rparr>
      in case await_fetch h
            \<lparr>url = url,
             method' = ''POST'',
             headers = [(''Content-Type'', ''application/json''),
                        (''Authorization'', ''Bearer '' @ token)],
             body = Some (JSON_stringify (number_digits h) requestBody)\<rparr> s of
        (fetched, s') \<Rightarrow>
          (let attempt =
             (case fetched of
                Inl error \<Rightarrow> Inl error
              | Inr response \<Rightarrow>
                  if \<not> ok response then
                    (let errorMessage =
                           JStr (''HTTP '' @ decimal (status response) @ '': '' @ statusText response);
                         errorMessage =
                           (case json response of
                              Inl _ \<Rightarrow> errorMessage
                            | Inr errorData \<Rightarrow>
                                (case get_property errorData ''detail'' of
                                   Inl _ \<Rightarrow> errorMessage
                                 | Inr detail \<Rightarrow>
                                     if truthy detail then detail else errorMessage))
                     in throw_new_Error (number_digits h) errorMessage)
                  else json response)
           in case attempt of
                Inr voteData \<Rightarrow> (Inr voteData, s')
              | Inl error \<Rightarrow>
                  if instanceof_Error error then (Inl error, s')
                  else (case String_of (number_digits h) error of
                          Inl t \<Rightarrow> (Inl t, s')
                        | Inr str \<Rightarrow>
                            (throw_new_Error (number_digits h) (JStr (''Network error: '' @ str)), s'))))"

text \<open>\<^verbatim>\<open>src/fetchPollResults.ts\<close>\<close>

definition fetchPollResults ::
  "'w host \<Rightarrow> string \<Rightarrow> 'w world \<Rightarrow> (thrown + jsval) \<times> 'w world" where
  "fetchPollResults h pollId s =
     (let url = ''http://localhost:8000/polls/'' @ pollId @ ''/results''
      in case await_fetch h
            \<lparr>url = url,
             method' = ''GET'',
             headers = [(''Content-Type'', ''application/json'')],
             body = None\<rparr> s of
        (fetched, s') \<Rightarrow>
          (let attempt =
             (case fetched of
                Inl error \<Rightarrow> Inl error
              | Inr response \<Rightarrow>
                  if \<not> ok response then
                    (let errorMessage =
                           JStr (''HTTP '' @ decimal (status response) @ '': '' @ statusText response);
                         errorMessage =
                           (case json response of
                              Inl _ \<Rightarrow> errorMessage
                            | Inr errorData \<Rightarrow>
                                (case get_property errorData ''detail'' of
                                   Inl _ \<Rightarrow> errorMessage
                                 | Inr detail \<Rightarrow>
                                     if truthy detail then detail else errorMessage))
                     in throw_new_Error (number_digits h) errorMessage)
                  else json response)
           in case attempt of
                Inr pollResults \<Rightarrow> (Inr pollResults, s')
              | Inl error \<Rightarrow>
                  if instanceof_Error error then (Inl error, s')
                  else (case String_of (number_digits h) error of
                          Inl t \<Rightarrow> (Inl t, s')
                        | Inr str \<Rightarrow>
                            (throw_new_Error (number_digits h) (JStr (''Network error: '' @ str)), s'))))"

section \<open>The shape the four functions share\<close>

text \<open>
  The four functions differ only in the request they build. The definitions below name
  the two requests and the steps after \<^verbatim>\<open>fetch\<close> has answered, so that each property
  is proved once; the lemmas \<open>*_settle\<close> show that every function is exactly these steps.
\<close>

definition vote_request :: "'w host \<Rightarrow> string \<Rightarrow> string \<Rightarrow> string \<Rightarrow> request" where
  "vote_request h pollId optionId token =
     \<lparr>url = ''http://localhost:8000/polls/'' @ pollId @ ''/vote'',
      method' = ''POST'',
      headers = [(''Content-Type'', ''application/json''),
                 (''Authorization'', ''Bearer '' @ token)],
      body = Some (JSON_stringify (number_digits h) \<lparr>option_id = parseInt10 optionId\<rparr>)\<rparr>"

definition results_request :: "string \<Rightarrow> request" where
  "results_request pollId =
     \<lparr>url = ''http://localhost:8000/polls/'' @ pollId @ ''/results'',
      method' = ''GET'',
      headers = [(''Content-Type'', ''application/json'')],
      body = None\<rparr>"

definition fallback_message :: "response \<Rightarrow> string" where
  "fallback_message response = ''HTTP '' @ decimal (status response) @ '': '' @ statusText response"

definition error_message :: "response \<Rightarrow> jsval" where
  "error_message response =
     (case json response of
        Inl _ \<Rightarrow> JStr (fallback_message response)
      | Inr errorData \<Rightarrow>
          (case get_property errorData ''detail'' of
             Inl _ \<Rightarrow> JStr (fallback_message response)
           | Inr detail \<Rightarrow> if truthy detail then detail else JStr (fallback_message response)))"

definition try_block :: "(rat \<Rightarrow> string) \<Rightarrow> thrown + response \<Rightarrow> thrown + jsval" where
  "try_block digits fetched =
     (case fetched of
        Inl error \<Rightarrow> Inl error
      | Inr response \<Rightarrow>
          if \<not> ok response then throw_new_Error digits (error_message response)
          else json response)"

definition catch_block :: "(rat \<Rightarrow> string) \<Rightarrow> thrown \<Rightarrow> thrown + jsval" where
  "catch_block digits error =
     (if instanceof_Error error then Inl error
      else (case String_of digits error of
              Inl t \<Rightarrow> Inl t
            | Inr str \<Rightarrow> throw_new_Error digits (JStr (''Network error: '' @ str))))"

definition settle :: "(rat \<Rightarrow> string) \<Rightarrow> thrown + response \<Rightarrow> thrown + jsval" where
  "settle digits fetched =
     (case try_block digits fetched of
        Inr v \<Rightarrow> Inr v
      | Inl error \<Rightarrow> catch_block digits error)"

definition after_fetch :: "'w host \<Rightarrow> request \<Rightarrow> 'w world \<Rightarrow> 'w world" where
  "after_fetch h req s =
     \<lparr>network = snd (fetch h req (network s)), fetch_calls = fetch_calls s @ [req]\<rparr>"

text \<open>
  The four exported functions applied to their arguments, each paired with the request
  its source builds.
\<close>

definition client_calls ::
  "'w host \<Rightarrow> string \<Rightarrow> string \<Rightarrow> string \<Rightarrow>
     (('w world \<Rightarrow> (thrown + jsval) \<times> 'w world) \<times> request) set" where
  "client_calls h pollId optionId token =
     {(poll_api_submitVote h pollId optionId token, vote_request h pollId optionId token),
      (submitVote h pollId optionId token, vote_request h pollId optionId token),
      (poll_api_fetchPollResults h pollId, results_request pollId),
      (fetchPollResults h pollId, results_request pollId)}"

section \<open>Notions used to state the properties\<close>

text \<open>The signed value of a sign (empty, \<^verbatim>\<open>+\<close> or \<^verbatim>\<open>-\<close>) followed by decimal digits.\<close>

definition signed_value :: "string \<Rightarrow> string \<Rightarrow> int" where
  "signed_value sign ds = (if sign = ''-'' then - int (digits_value ds) else int (digits_value ds))"

text \<open>The sign applied to a magnitude.\<close>

definition apply_sign :: "string \<Rightarrow> nat \<Rightarrow> int" where
  "apply_sign sign m = (if sign = ''-'' then - int m else int m)"

text \<open>
  The answer to one request echoes the option that request carries: if \<^verbatim>\<open>fetch\<close>
  answers the request \<open>req\<close> in the state \<open>w\<close> with a success response whose body
  decodes, the payload has as \<^verbatim>\<open>option_id\<close> an integer of magnitude at most \<open>2 ^ 53\<close>
  whose JSON serialisation is the body of \<open>req\<close>. Nothing is asked of the answers to
  other requests.
\<close>

definition echoes_option_id :: "'w host \<Rightarrow> request \<Rightarrow> 'w \<Rightarrow> bool" where
  "echoes_option_id h req w \<longleftrightarrow>
     (\<forall>response payload.
        fst (fetch h req w) = Inr response \<and> ok response \<and> json response = Inr payload
        \<longrightarrow> (\<exists>i. \<bar>i\<bar> \<le> 2 ^ 53
               \<and> get_property payload ''option_id'' = Inr (JNum (Finite (of_int i)))
               \<and> body req = Some (JSON_stringify (number_digits h) \<lparr>option_id = Finite (of_int i)\<rparr>)))"

section \<open>Example hosts\<close>

text \<open>
  A host whose \<^verbatim>\<open>fetch\<close> gives the same answer to every request, and a world in
  which no call has been made yet; used to run the functions on concrete inputs.
\<close>

definition answering :: "thrown + response \<Rightarrow> unit host" where
  "answering outcome = \<lparr>fetch = (\<lambda>req w. (outcome, w)), number_digits = (\<lambda>v. [])\<rparr>"

definition fresh :: "unit world" where
  "fresh = \<lparr>network = (), fetch_calls = []\<rparr>"

text \<open>
  A host whose network state counts the requests it has answered: the state changes
  with every call while the answer stays the same.
\<close>

definition counting :: "thrown + response \<Rightarrow> nat host" where
  "counting outcome = \<lparr>fetch = (\<lambda>req n. (outcome, Suc n)), number_digits = (\<lambda>v. [])\<rparr>"

text \<open>
  A poll service with one poll whose only option is 5. A request whose body is
  \<^verbatim>\<open>{"option_id":5}\<close> gets the vote record, a \<^verbatim>\<open>GET\<close> gets the results of the
  poll, and any other request a 404.
\<close>

definition recording_option_5 :: "unit host" where
  \<open>recording_option_5 =
     \<lparr>fetch = (\<lambda>req w.
        (if body req = Some ''{"option_id":5}''
         then Inr \<lparr>ok = True, status = 200, statusText = ''OK'',
                   json = Inr (JObj [(''id'', JNum (Finite 31)), (''user_id'', JNum (Finite 4)),
                                     (''option_id'', JNum (Finite 5)),
                                     (''created_at'', JStr ''2025-01-01T00:00:00'')])\<rparr>
         else if method' req = ''GET''
         then Inr \<lparr>ok = True, status = 200, statusText = ''OK'',
                   json = Inr (JObj [(''poll_id'', JNum (Finite 1)),
                                     (''question'', JStr ''Tea?''),
                                     (''results'',
                                        JArr [JObj [(''option_id'', JNum (Finite 5)),
                                                    (''text'', JStr ''yes''),
                                                    (''vote_count'', JNum (Finite 1))]])])\<rparr>
         else Inr \<lparr>ok = False, status = 404, statusText = ''Not Found'',
                   json = Inr (JObj [(''detail'', JStr ''Option not found'')])\<rparr>, w)),
      number_digits = (\<lambda>v. [])\<rparr>\<close>

section \<open>Facts about the built-ins\<close>

lemma decimal_small: "n < 10 \<Longrightarrow> decimal n = [digit_char n]"
  by (subst decimal.simps) simp

lemma bit_length_pow: "bit_length (2 ^ k) = Suc k"
  by (induction k) (simp_all add: bit_length.simps)

lemma round_f64_exact: "n \<le> 2 ^ 53 \<Longrightarrow> round_f64 n = Some n"
proof (cases "n < 2 ^ 53")
  case True
  then show ?thesis by (simp add: round_f64_def)
next
  case False
  assume "n \<le> 2 ^ 53"
  with False have n: "n = 2 ^ 53" by simp
  have "bit_length ((2::nat) ^ 53) = 54" by (subst bit_length_pow) simp
  then show ?thesis
    unfolding n by (simp add: round_f64_def Let_def)
qed

lemma Number_of_int_exact: "\<bar>i\<bar> \<le> 2 ^ 53 \<Longrightarrow> Number_of_int i = Finite (of_int i)"
proof -
  assume a: "\<bar>i\<bar> \<le> 2 ^ 53"
  then have "nat \<bar>i\<bar> \<le> 2 ^ 53" by (simp add: nat_le_iff)
  then have "round_f64 (nat \<bar>i\<bar>) = Some (nat \<bar>i\<bar>)" by (rule round_f64_exact)
  then show ?thesis by (simp add: Number_of_int_def)
qed

lemma is_exact_int_of_int: "\<bar>i\<bar> \<le> 2 ^ 53 \<Longrightarrow> is_exact_int (of_int i)"
  by (simp add: is_exact_int_def flip: of_int_abs)

section \<open>Every function is fetch followed by the shared steps\<close>

lemma poll_api_submitVote_settle:
  "poll_api_submitVote h pollId optionId token s =
     (settle (number_digits h) (fst (fetch h (vote_request h pollId optionId token) (network s))),
      after_fetch h (vote_request h pollId optionId token) s)"
  by (simp add: poll_api_submitVote_def vote_request_def settle_def try_block_def catch_block_def
      error_message_def fallback_message_def after_fetch_def await_fetch_def Let_def
      split: prod.splits sum.splits)

lemma submitVote_settle:
  "submitVote h pollId optionId token s =
     (settle (number_digits h) (fst (fetch h (vote_request h pollId optionId token) (network s))),
      after_fetch h (vote_request h pollId optionId token) s)"
  by (simp add: submitVote_def vote_request_def settle_def try_block_def catch_block_def
      error_message_def fallback_message_def after_fetch_def await_fetch_def Let_def
      split: prod.splits sum.splits)

lemma poll_api_fetchPollResults_settle:
  "poll_api_fetchPollResults h pollId s =
     (settle (number_digits h) (fst (fetch h (results_request pollId) (network s))),
      after_fetch h (results_request pollId) s)"
  by (simp add: poll_api_fetchPollResults_def results_request_def settle_def try_block_def catch_block_def
      error_message_def fallback_message_def after_fetch_def await_fetch_def Let_def
      split: prod.splits sum.splits)

lemma fetchPollResults_settle:
  "fetchPollResults h pollId s =
     (settle (number_digits h) (fst (fetch h (results_request pollId) (network s))),
      after_fetch h (results_request pollId) s)"
  by (simp add: fetchPollResults_def results_request_def settle_def try_block_def catch_block_def
      error_message_def fallback_message_def after_fetch_def await_fetch_def Let_def
      split: prod.splits sum.splits)

section \<open>The standalone files and the combined module\<close>

text \<open>
  C8. The standalone \<^verbatim>\<open>submitVote\<close> of \<^verbatim>\<open>src/submitVote.ts\<close> and the standalone
  \<^verbatim>\<open>fetchPollResults\<close> of \<^verbatim>\<open>src/fetchPollResults.ts\<close> are extensionally equal to
  the functions of the same names in \<^verbatim>\<open>src/lib/poll-api.ts\<close>: on every host (every
  behaviour of \<^verbatim>\<open>fetch\<close>), every argument and every world, both give the same
  settlement (the same returned value, or the same thrown value) and leave the same
  world.
\<close>

theorem standalone_equals_combined:
  "submitVote h pollId optionId token s = poll_api_submitVote h pollId optionId token s
   \<and> fetchPollResults h pollId s = poll_api_fetchPollResults h pollId s"
  unfolding submitVote_def poll_api_submitVote_def fetchPollResults_def
    poll_api_fetchPollResults_def
  by (rule conjI) (rule refl)+

section \<open>The shared steps, case by case\<close>

lemma client_call_settle:
  assumes "(call, req) \<in> client_calls h pollId optionId token"
  shows "call s = (settle (number_digits h) (fst (fetch h req (network s))), after_fetch h req s)"
  using assms
  by (auto simp: client_calls_def poll_api_submitVote_settle submitVote_settle
      poll_api_fetchPollResults_settle fetchPollResults_settle)

lemma throw_new_Error_JStr:
  "throw_new_Error digits (JStr m) = Inl (ErrorInstance (JsError ''Error'' m))"
  by (simp add: throw_new_Error_def new_Error_def)

lemma throw_new_Error_truthy:
  "truthy d \<Longrightarrow> throw_new_Error digits d =
     (case ToString digits d of Inl t \<Rightarrow> Inl t | Inr m \<Rightarrow> Inl (ErrorInstance (JsError ''Error'' m)))"
  by (cases d) (simp_all add: throw_new_Error_def new_Error_def split: sum.splits)

lemma ToString_throws_Error: "ToString digits v = Inl t \<Longrightarrow> instanceof_Error t"
  and join_throws_Error: "join_elements digits vs = Inl t \<Longrightarrow> instanceof_Error t"
  and element_throws_Error: "element_string digits v = Inl t \<Longrightarrow> instanceof_Error t"
  by (induction digits v and digits vs and digits v arbitrary: t and t and t rule: ToString_join_elements_element_string.induct)
     (auto simp: TypeError_not_primitive_def instanceof_Error_def split: if_splits sum.splits)

lemma throw_new_Error_is_Error: "\<exists>e. throw_new_Error digits msg = Inl (ErrorInstance e)"
proof (cases "new_Error digits msg")
  case (Inl t)
  then have "ToString digits msg = Inl t"
    by (auto simp: new_Error_def split: jsval.splits sum.splits if_splits)
  then have "instanceof_Error t" by (rule ToString_throws_Error)
  then obtain e where "t = ErrorInstance e"
    by (cases t) (simp_all add: instanceof_Error_def)
  with Inl show ?thesis by (simp add: throw_new_Error_def)
next
  case (Inr e)
  then show ?thesis by (simp add: throw_new_Error_def)
qed

lemma settle_fetch_throws_Error:
  "settle digits (Inl (ErrorInstance e)) = Inl (ErrorInstance e)"
  by (simp add: settle_def try_block_def catch_block_def instanceof_Error_def)

lemma settle_fetch_throws_NonError:
  "settle digits (Inl (NonError v)) =
     (case ToString digits v of
        Inl t \<Rightarrow> Inl t
      | Inr str \<Rightarrow> Inl (ErrorInstance (JsError ''Error'' (''Network error: '' @ str))))"
  by (simp add: settle_def try_block_def catch_block_def instanceof_Error_def String_of_def
      throw_new_Error_JStr split: sum.splits)

lemma settle_ok:
  "ok response \<Longrightarrow> settle digits (Inr response) =
     (case json response of
        Inr v \<Rightarrow> Inr v
      | Inl (ErrorInstance e) \<Rightarrow> Inl (ErrorInstance e)
      | Inl (NonError v) \<Rightarrow>
          (case ToString digits v of
             Inl t \<Rightarrow> Inl t
           | Inr str \<Rightarrow> Inl (ErrorInstance (JsError ''Error'' (''Network error: '' @ str)))))"
  by (simp add: settle_def try_block_def catch_block_def instanceof_Error_def String_of_def
      throw_new_Error_JStr split: sum.splits thrown.splits)

lemma settle_not_ok:
  "\<not> ok response \<Longrightarrow>
     settle digits (Inr response) = throw_new_Error digits (error_message response)"
proof -
  assume n: "\<not> ok response"
  obtain e where e: "throw_new_Error digits (error_message response) = (Inl (ErrorInstance e) :: thrown + jsval)"
    using throw_new_Error_is_Error by blast
  show ?thesis
    using n e by (simp add: settle_def try_block_def catch_block_def instanceof_Error_def)
qed

section \<open>Thrown values and the outer catch\<close>

text \<open>
  C9. In \<^verbatim>\<open>submitVote\<close> and \<^verbatim>\<open>fetchPollResults\<close> (all four definitions), every
  \<^verbatim>\<open>Error\<close> instance that leaves the \<^verbatim>\<open>try\<close> block is re-thrown unchanged by the
  outer \<^verbatim>\<open>catch\<close>: one thrown by \<^verbatim>\<open>fetch\<close>, one thrown by decoding the body of
  a success response, and the one the non-success branch throws (which is always an
  \<^verbatim>\<open>Error\<close> instance). The \<^verbatim>\<open>Network error: \<close> wrapping is applied only to a
  thrown value that is not an \<^verbatim>\<open>Error\<close> instance, to its string conversion (if that
  conversion itself throws, its \<^verbatim>\<open>TypeError\<close> is what the call throws).
\<close>

theorem Error_instances_rethrown_unchanged:
  assumes "(call, req) \<in> client_calls h pollId optionId token"
  shows "(\<forall>e. fst (fetch h req (network s)) = Inl (ErrorInstance e)
            \<longrightarrow> fst (call s) = Inl (ErrorInstance e))
       \<and> (\<forall>response e. fst (fetch h req (network s)) = Inr response \<and> ok response
              \<and> json response = Inl (ErrorInstance e)
            \<longrightarrow> fst (call s) = Inl (ErrorInstance e))
       \<and> (\<forall>response. fst (fetch h req (network s)) = Inr response \<and> \<not> ok response
            \<longrightarrow> fst (call s) = throw_new_Error (number_digits h) (error_message response)
                \<and> (\<exists>e. fst (call s) = Inl (ErrorInstance e)))
       \<and> (\<forall>response v.
              (fst (fetch h req (network s)) = Inl (NonError v)
               \<or> fst (fetch h req (network s)) = Inr response \<and> ok response
                  \<and> json response = Inl (NonError v))
            \<longrightarrow> fst (call s) =
                  (case ToString (number_digits h) v of
                     Inl t \<Rightarrow> Inl t
                   | Inr str \<Rightarrow>
                       Inl (ErrorInstance (JsError ''Error'' (''Network error: '' @ str)))))"
proof -
  have c: "fst (call s) = settle (number_digits h) (fst (fetch h req (network s)))"
    using client_call_settle [OF assms, of s] by simp
  show ?thesis
    unfolding c
    by (auto simp: settle_fetch_throws_Error settle_fetch_throws_NonError settle_ok settle_not_ok
        throw_new_Error_is_Error)
qed

theorem Error_instances_rethrown_unchanged_witness:
  "fst (submitVote
          (answering (Inr \<lparr>ok = True, status = 200, statusText = ''OK'',
             json = Inl (ErrorInstance (JsError ''SyntaxError'' ''Unexpected end of JSON input''))\<rparr>))
          ''1'' ''2'' ''token'' fresh)
     = Inl (ErrorInstance (JsError ''SyntaxError'' ''Unexpected end of JSON input''))
   \<and> fst (poll_api_fetchPollResults
          (answering (Inl (ErrorInstance (JsError ''AbortError'' ''The operation was aborted''))))
          ''1'' fresh)
     = Inl (ErrorInstance (JsError ''AbortError'' ''The operation was aborted''))
   \<and> fst (fetchPollResults (answering (Inl (NonError (JStr ''connection refused'')))) ''1'' fresh)
     = Inl (ErrorInstance (JsError ''Error'' ''Network error: connection refused''))"
  using
    Error_instances_rethrown_unchanged
      [of "submitVote (answering (Inr \<lparr>ok = True, status = 200, statusText = ''OK'',
             json = Inl (ErrorInstance (JsError ''SyntaxError'' ''Unexpected end of JSON input''))\<rparr>))
             ''1'' ''2'' ''token''"
          "vote_request (answering (Inr \<lparr>ok = True, status = 200, statusText = ''OK'',
             json = Inl (ErrorInstance (JsError ''SyntaxError'' ''Unexpected end of JSON input''))\<rparr>))
             ''1'' ''2'' ''token''"
          "answering (Inr \<lparr>ok = True, status = 200, statusText = ''OK'',
             json = Inl (ErrorInstance (JsError ''SyntaxError'' ''Unexpected end of JSON input''))\<rparr>)"
          "''1''" "''2''" "''token''" fresh]
    Error_instances_rethrown_unchanged
      [of "poll_api_fetchPollResults
             (answering (Inl (ErrorInstance (JsError ''AbortError'' ''The operation was aborted''))))
             ''1''"
          "results_request ''1''"
          "answering (Inl (ErrorInstance (JsError ''AbortError'' ''The operation was aborted'')))"
          "''1''" "''2''" "''token''" fresh]
    Error_instances_rethrown_unchanged
      [of "fetchPollResults (answering (Inl (NonError (JStr ''connection refused'')))) ''1''"
          "results_request ''1''"
          "answering (Inl (NonError (JStr ''connection refused'')))"
          "''1''" "''2''" "''token''" fresh]
  by (simp add: client_calls_def answering_def)

text \<open>
  C2, evaluated where it fails. When \<^verbatim>\<open>fetch\<close> rejects with
  \<^verbatim>\<open>TypeError: Failed to fetch\<close>, which is how \<^verbatim>\<open>fetch\<close> reports a refused
  connection, each of the four functions throws that \<^verbatim>\<open>TypeError\<close> as it is: the
  message is \<^verbatim>\<open>Failed to fetch\<close>, without the prefix \<^verbatim>\<open>Network error: \<close>.
\<close>

theorem fetch_TypeError_is_not_prefixed:
  "fst (submitVote (answering (Inl (ErrorInstance (JsError ''TypeError'' ''Failed to fetch''))))
          ''1'' ''2'' ''token'' fresh)
     = Inl (ErrorInstance (JsError ''TypeError'' ''Failed to fetch''))
   \<and> fst (poll_api_submitVote (answering (Inl (ErrorInstance (JsError ''TypeError'' ''Failed to fetch''))))
          ''1'' ''2'' ''token'' fresh)
     = Inl (ErrorInstance (JsError ''TypeError'' ''Failed to fetch''))
   \<and> fst (fetchPollResults (answering (Inl (ErrorInstance (JsError ''TypeError'' ''Failed to fetch''))))
          ''1'' fresh)
     = Inl (ErrorInstance (JsError ''TypeError'' ''Failed to fetch''))
   \<and> fst (poll_api_fetchPollResults (answering (Inl (ErrorInstance (JsError ''TypeError'' ''Failed to fetch''))))
          ''1'' fresh)
     = Inl (ErrorInstance (JsError ''TypeError'' ''Failed to fetch''))"
  by (simp add: poll_api_submitVote_settle submitVote_settle poll_api_fetchPollResults_settle
      fetchPollResults_settle settle_fetch_throws_Error answering_def)

section \<open>Non-success responses\<close>

text \<open>
  What the non-success branch throws, for every non-success response and all four
  definitions: an \<^verbatim>\<open>Error\<close> whose message is the body's \<^verbatim>\<open>detail\<close> when that is a
  non-empty string; the fallback \<^verbatim>\<open>HTTP {status}: {statusText}\<close> when the body does not
  decode, decodes to \<^verbatim>\<open>null\<close>, or has a missing or falsy \<^verbatim>\<open>detail\<close>; and for any other
  truthy \<^verbatim>\<open>detail\<close> whatever \<^verbatim>\<open>new Error\<close> makes of it. The examples after it are the
  two responses the specification names: 404 with body \<^verbatim>\<open>{"detail": "Poll not found"}\<close>,
  and 500 with a body that is not JSON.
\<close>

lemma non_success_error_message:
  assumes "(call, req) \<in> client_calls h pollId optionId token"
    and "fst (fetch h req (network s)) = Inr response"
    and "\<not> ok response"
  shows "(\<forall>errorData m. json response = Inr errorData
              \<and> get_property errorData ''detail'' = Inr (JStr m) \<and> m \<noteq> []
            \<longrightarrow> fst (call s) = Inl (ErrorInstance (JsError ''Error'' m)))
       \<and> (\<forall>errorData detail. json response = Inr errorData
              \<and> get_property errorData ''detail'' = Inr detail \<and> truthy detail
            \<longrightarrow> fst (call s) =
                  (case ToString (number_digits h) detail of
                     Inl t \<Rightarrow> Inl t
                   | Inr m \<Rightarrow> Inl (ErrorInstance (JsError ''Error'' m))))
       \<and> ((\<exists>t. json response = Inl t)
            \<or> (\<exists>errorData. json response = Inr errorData
                  \<and> ((\<exists>t. get_property errorData ''detail'' = Inl t)
                      \<or> (\<exists>detail. get_property errorData ''detail'' = Inr detail
                            \<and> \<not> truthy detail)))
            \<longrightarrow> fst (call s) =
                  Inl (ErrorInstance (JsError ''Error''
                    (''HTTP '' @ decimal (status response) @ '': '' @ statusText response))))"
proof -
  have c: "fst (call s) = throw_new_Error (number_digits h) (error_message response)"
    using client_call_settle [OF assms(1), of s] assms(2,3) by (simp add: settle_not_ok)
  show ?thesis
    unfolding c
    by (auto simp: error_message_def fallback_message_def throw_new_Error_JStr
        throw_new_Error_truthy)
qed

lemma non_success_error_message_examples:
  "fst (submitVote
          (answering (Inr \<lparr>ok = False, status = 404, statusText = ''Not Found'',
             json = Inr (JObj [(''detail'', JStr ''Poll not found'')])\<rparr>))
          ''1'' ''2'' ''token'' fresh)
     = Inl (ErrorInstance (JsError ''Error'' ''Poll not found''))
   \<and> fst (fetchPollResults
          (answering (Inr \<lparr>ok = False, status = 500, statusText = ''Internal Server Error'',
             json = Inl (ErrorInstance (JsError ''SyntaxError'' ''Unexpected token <''))\<rparr>))
          ''1'' fresh)
     = Inl (ErrorInstance (JsError ''Error'' ''HTTP 500: Internal Server Error''))"
  using
    non_success_error_message
      [of "submitVote (answering (Inr \<lparr>ok = False, status = 404, statusText = ''Not Found'',
             json = Inr (JObj [(''detail'', JStr ''Poll not found'')])\<rparr>)) ''1'' ''2'' ''token''"
          "vote_request (answering (Inr \<lparr>ok = False, status = 404, statusText = ''Not Found'',
             json = Inr (JObj [(''detail'', JStr ''Poll not found'')])\<rparr>)) ''1'' ''2'' ''token''"
          "answering (Inr \<lparr>ok = False, status = 404, statusText = ''Not Found'',
             json = Inr (JObj [(''detail'', JStr ''Poll not found'')])\<rparr>)"
          "''1''" "''2''" "''token''" fresh
          "\<lparr>ok = False, status = 404, statusText = ''Not Found'',
             json = Inr (JObj [(''detail'', JStr ''Poll not found'')])\<rparr>"]
    non_success_error_message
      [of "fetchPollResults (answering (Inr \<lparr>ok = False, status = 500,
             statusText = ''Internal Server Error'',
             json = Inl (ErrorInstance (JsError ''SyntaxError'' ''Unexpected token <''))\<rparr>)) ''1''"
          "results_request ''1''"
          "answering (Inr \<lparr>ok = False, status = 500, statusText = ''Internal Server Error'',
             json = Inl (ErrorInstance (JsError ''SyntaxError'' ''Unexpected token <''))\<rparr>)"
          "''1''" "''2''" "''token''" fresh
          "\<lparr>ok = False, status = 500, statusText = ''Internal Server Error'',
             json = Inl (ErrorInstance (JsError ''SyntaxError'' ''Unexpected token <''))\<rparr>"]
  by (simp add: client_calls_def answering_def decimal.simps digit_char_def)

text \<open>
  C1, evaluated where it fails. A validation error of the poll service has status 422
  and a \<^verbatim>\<open>detail\<close> that is an array of objects. The field is truthy, so the code takes
  it as the message, and \<^verbatim>\<open>new Error\<close> turns it into \<^verbatim>\<open>[object Object]\<close>: the message
  is neither the value of the field nor the fallback
  \<^verbatim>\<open>HTTP 422: Unprocessable Entity\<close>.
\<close>

theorem array_detail_gives_object_Object:
  "fst (submitVote
          (answering (Inr \<lparr>ok = False, status = 422, statusText = ''Unprocessable Entity'',
             json = Inr (JObj [(''detail'',
                      JArr [JObj [(''loc'', JArr [JStr ''body'', JStr ''option_id'']),
                                  (''msg'', JStr ''field required''),
                                  (''type'', JStr ''value_error.missing'')]])])\<rparr>))
          ''1'' ''abc'' ''token'' fresh)
     = Inl (ErrorInstance (JsError ''Error'' ''[object Object]''))
   \<and> fst (fetchPollResults
          (answering (Inr \<lparr>ok = False, status = 422, statusText = ''Unprocessable Entity'',
             json = Inr (JObj [(''detail'',
                      JArr [JObj [(''loc'', JArr [JStr ''path'', JStr ''poll_id'']),
                                  (''msg'', JStr ''value is not a valid integer''),
                                  (''type'', JStr ''type_error.integer'')]])])\<rparr>))
          ''one'' fresh)
     = Inl (ErrorInstance (JsError ''Error'' ''[object Object]''))
   \<and> get_property
         (JObj [(''detail'',
            JArr [JObj [(''loc'', JArr [JStr ''body'', JStr ''option_id'']),
                        (''msg'', JStr ''field required''),
                        (''type'', JStr ''value_error.missing'')]])]) ''detail''
     = Inr (JArr [JObj [(''loc'', JArr [JStr ''body'', JStr ''option_id'']),
                        (''msg'', JStr ''field required''),
                        (''type'', JStr ''value_error.missing'')]])
   \<and> truthy (JArr [JObj [(''loc'', JArr [JStr ''body'', JStr ''option_id'']),
                         (''msg'', JStr ''field required''),
                         (''type'', JStr ''value_error.missing'')]])
   \<and> JStr ''[object Object]''
       \<noteq> JArr [JObj [(''loc'', JArr [JStr ''body'', JStr ''option_id'']),
                       (''msg'', JStr ''field required''),
                       (''type'', JStr ''value_error.missing'')]]
   \<and> ''[object Object]'' \<noteq> ''HTTP '' @ decimal 422 @ '': '' @ ''Unprocessable Entity''"
  by (simp add: submitVote_settle fetchPollResults_settle settle_not_ok error_message_def
      throw_new_Error_def new_Error_def answering_def)

section \<open>Fetching poll results\<close>

lemma settle_Inr_iff:
  "settle digits fetched = Inr v \<longleftrightarrow>
     (\<exists>response. fetched = Inr response \<and> ok response \<and> json response = Inr v)"
proof (cases fetched)
  case (Inl t)
  then show ?thesis
    by (cases t)
       (auto simp: settle_fetch_throws_Error settle_fetch_throws_NonError split: sum.splits)
next
  case (Inr response)
  show ?thesis
  proof (cases "ok response")
    case True
    then show ?thesis
      unfolding Inr by (auto simp: settle_ok split: sum.splits thrown.splits)
  next
    case False
    obtain e where "throw_new_Error digits (error_message response) = (Inl (ErrorInstance e) :: thrown + jsval)"
      using throw_new_Error_is_Error by blast
    with False show ?thesis
      unfolding Inr by (simp add: settle_not_ok)
  qed
qed

text \<open>
  C5. For every successful \<^verbatim>\<open>fetchPollResults\<close> call (either definition), the value
  returned is the decoded body of the success response, verbatim: the call returns a
  value exactly when \<^verbatim>\<open>fetch\<close> answered its request with a success response whose
  body decodes, and the value is that decoded body. So \<^verbatim>\<open>poll_id\<close> and
  \<^verbatim>\<open>question\<close> are the payload's, and \<^verbatim>\<open>results\<close> is the payload's sequence in the
  payload's order: nothing is sorted, reordered, filtered or aggregated.
\<close>

theorem fetchPollResults_returns_payload_verbatim:
  assumes "fetcher \<in> {poll_api_fetchPollResults, fetchPollResults}"
  shows "(fst (fetcher h pollId s) = Inr pollResults \<longleftrightarrow>
            (\<exists>response. fst (fetch h (results_request pollId) (network s)) = Inr response
               \<and> ok response \<and> json response = Inr pollResults))
       \<and> (\<forall>response poll_id question results.
              fst (fetch h (results_request pollId) (network s)) = Inr response
              \<and> ok response
              \<and> json response =
                  Inr (JObj [(''poll_id'', poll_id), (''question'', question),
                             (''results'', JArr results)])
            \<longrightarrow> fst (fetcher h pollId s) =
                  Inr (JObj [(''poll_id'', poll_id), (''question'', question),
                             (''results'', JArr results)]))"
proof -
  have c: "fst (fetcher h pollId s) =
      settle (number_digits h) (fst (fetch h (results_request pollId) (network s)))"
    using assms by (auto simp: poll_api_fetchPollResults_settle fetchPollResults_settle)
  show ?thesis
    unfolding c settle_Inr_iff by auto
qed

theorem fetchPollResults_returns_payload_verbatim_witness:
  "fst (fetchPollResults
          (answering (Inr \<lparr>ok = True, status = 200, statusText = ''OK'',
             json = Inr (JObj [(''poll_id'', JNum (Finite 7)),
                      (''question'', JStr ''Tabs or spaces?''),
                      (''results'',
                         JArr [JObj [(''option_id'', JNum (Finite 2)), (''text'', JStr ''spaces''),
                                     (''vote_count'', JNum (Finite 1))],
                               JObj [(''option_id'', JNum (Finite 1)), (''text'', JStr ''tabs''),
                                     (''vote_count'', JNum (Finite 5))]])])\<rparr>))
          ''7'' fresh)
     = Inr (JObj [(''poll_id'', JNum (Finite 7)),
                  (''question'', JStr ''Tabs or spaces?''),
                  (''results'',
                     JArr [JObj [(''option_id'', JNum (Finite 2)), (''text'', JStr ''spaces''),
                                 (''vote_count'', JNum (Finite 1))],
                           JObj [(''option_id'', JNum (Finite 1)), (''text'', JStr ''tabs''),
                                 (''vote_count'', JNum (Finite 5))]])])"
  using
    fetchPollResults_returns_payload_verbatim
      [of fetchPollResults
          "answering (Inr \<lparr>ok = True, status = 200, statusText = ''OK'',
             json = Inr (JObj [(''poll_id'', JNum (Finite 7)),
                      (''question'', JStr ''Tabs or spaces?''),
                      (''results'',
                         JArr [JObj [(''option_id'', JNum (Finite 2)), (''text'', JStr ''spaces''),
                                     (''vote_count'', JNum (Finite 1))],
                               JObj [(''option_id'', JNum (Finite 1)), (''text'', JStr ''tabs''),
                                     (''vote_count'', JNum (Finite 5))]])])\<rparr>)"
          "''7''" fresh]
  by (simp add: answering_def)

text \<open>
  C6. Every call \<^verbatim>\<open>fetchPollResults(pollId)\<close> (either definition) makes one
  \<^verbatim>\<open>fetch\<close> call: a \<^verbatim>\<open>GET\<close> to
  \<^verbatim>\<open>http://localhost:8000/polls/{pollId}/results\<close> whose only header is
  \<^verbatim>\<open>Content-Type: application/json\<close>; it has no request body and no
  \<^verbatim>\<open>Authorization\<close> header.
\<close>

theorem fetchPollResults_request:
  "fetch_calls (snd (poll_api_fetchPollResults h pollId s))
     = fetch_calls s @ [results_request pollId]
   \<and> fetch_calls (snd (fetchPollResults h pollId s))
     = fetch_calls s @ [results_request pollId]
   \<and> results_request pollId =
       \<lparr>url = ''http://localhost:8000/polls/'' @ pollId @ ''/results'',
        method' = ''GET'',
        headers = [(''Content-Type'', ''application/json'')],
        body = None\<rparr>
   \<and> body (results_request pollId) = None
   \<and> map_of (headers (results_request pollId)) ''Authorization'' = None"
  by (simp add: poll_api_fetchPollResults_settle fetchPollResults_settle after_fetch_def
      results_request_def)

text \<open>
  C7. Two \<^verbatim>\<open>fetchPollResults\<close> calls in succession with the same poll identifier, the
  second running in the world the first left, settle in the same way whenever
  \<^verbatim>\<open>fetch\<close> gives the second request the answer it gave the first; when that answer
  is a success response with a decodable body, both calls return that same decoded
  body.
\<close>

theorem fetchPollResults_twice_same_content:
  assumes "fetcher \<in> {poll_api_fetchPollResults, fetchPollResults}"
    and "fetcher h pollId s = (first, s1)"
    and "fetcher h pollId s1 = (second, s2)"
    and "fst (fetch h (results_request pollId) (network s1))
           = fst (fetch h (results_request pollId) (network s))"
  shows "second = first
       \<and> (\<forall>response pollResults.
             fst (fetch h (results_request pollId) (network s)) = Inr response
             \<and> ok response \<and> json response = Inr pollResults
           \<longrightarrow> first = Inr pollResults \<and> second = Inr pollResults)"
proof -
  have 1: "first = settle (number_digits h) (fst (fetch h (results_request pollId) (network s)))"
    using assms(1,2) by (auto simp: poll_api_fetchPollResults_settle fetchPollResults_settle)
  have 2: "second = settle (number_digits h) (fst (fetch h (results_request pollId) (network s1)))"
    using assms(1,3) by (auto simp: poll_api_fetchPollResults_settle fetchPollResults_settle)
  show ?thesis
    unfolding 1 2 assms(4) by (auto simp: settle_ok)
qed

theorem fetchPollResults_twice_same_content_witness:
  "fst (fetchPollResults
          (counting (Inr \<lparr>ok = True, status = 200, statusText = ''OK'',
             json = Inr (JObj [(''poll_id'', JNum (Finite 7)), (''question'', JStr ''Tea?''),
                               (''results'', JArr [])])\<rparr>))
          ''7''
          (snd (fetchPollResults
             (counting (Inr \<lparr>ok = True, status = 200, statusText = ''OK'',
                json = Inr (JObj [(''poll_id'', JNum (Finite 7)), (''question'', JStr ''Tea?''),
                                  (''results'', JArr [])])\<rparr>))
             ''7'' \<lparr>network = 0, fetch_calls = []\<rparr>)))
     = Inr (JObj [(''poll_id'', JNum (Finite 7)), (''question'', JStr ''Tea?''),
                  (''results'', JArr [])])
   \<and> fst (fetchPollResults
          (counting (Inr \<lparr>ok = True, status = 200, statusText = ''OK'',
             json = Inr (JObj [(''poll_id'', JNum (Finite 7)), (''question'', JStr ''Tea?''),
                               (''results'', JArr [])])\<rparr>))
          ''7'' \<lparr>network = 0, fetch_calls = []\<rparr>)
     = Inr (JObj [(''poll_id'', JNum (Finite 7)), (''question'', JStr ''Tea?''),
                  (''results'', JArr [])])
   \<and> network (snd (fetchPollResults
          (counting (Inr \<lparr>ok = True, status = 200, statusText = ''OK'',
             json = Inr (JObj [(''poll_id'', JNum (Finite 7)), (''question'', JStr ''Tea?''),
                               (''results'', JArr [])])\<rparr>))
          ''7'' \<lparr>network = 0, fetch_calls = []\<rparr>)) = 1"
  using
    fetchPollResults_twice_same_content
      [of fetchPollResults
          "counting (Inr \<lparr>ok = True, status = 200, statusText = ''OK'',
             json = Inr (JObj [(''poll_id'', JNum (Finite 7)), (''question'', JStr ''Tea?''),
                               (''results'', JArr [])])\<rparr>)"
          "''7''" "\<lparr>network = 0, fetch_calls = []\<rparr>"
          "fst (fetchPollResults
             (counting (Inr \<lparr>ok = True, status = 200, statusText = ''OK'',
                json = Inr (JObj [(''poll_id'', JNum (Finite 7)), (''question'', JStr ''Tea?''),
                                  (''results'', JArr [])])\<rparr>))
             ''7'' \<lparr>network = 0, fetch_calls = []\<rparr>)"
          "snd (fetchPollResults
             (counting (Inr \<lparr>ok = True, status = 200, statusText = ''OK'',
                json = Inr (JObj [(''poll_id'', JNum (Finite 7)), (''question'', JStr ''Tea?''),
                                  (''results'', JArr [])])\<rparr>))
             ''7'' \<lparr>network = 0, fetch_calls = []\<rparr>)"
          "fst (fetchPollResults
             (counting (Inr \<lparr>ok = True, status = 200, statusText = ''OK'',
                json = Inr (JObj [(''poll_id'', JNum (Finite 7)), (''question'', JStr ''Tea?''),
                                  (''results'', JArr [])])\<rparr>))
             ''7''
             (snd (fetchPollResults
                (counting (Inr \<lparr>ok = True, status = 200, statusText = ''OK'',
                   json = Inr (JObj [(''poll_id'', JNum (Finite 7)), (''question'', JStr ''Tea?''),
                                     (''results'', JArr [])])\<rparr>))
                ''7'' \<lparr>network = 0, fetch_calls = []\<rparr>)))"
          "snd (fetchPollResults
             (counting (Inr \<lparr>ok = True, status = 200, statusText = ''OK'',
                json = Inr (JObj [(''poll_id'', JNum (Finite 7)), (''question'', JStr ''Tea?''),
                                  (''results'', JArr [])])\<rparr>))
             ''7''
             (snd (fetchPollResults
                (counting (Inr \<lparr>ok = True, status = 200, statusText = ''OK'',
                   json = Inr (JObj [(''poll_id'', JNum (Finite 7)), (''question'', JStr ''Tea?''),
                                     (''results'', JArr [])])\<rparr>))
                ''7'' \<lparr>network = 0, fetch_calls = []\<rparr>)))"]
  by (simp add: counting_def fetchPollResults_settle after_fetch_def)

section \<open>Facts about \<^verbatim>\<open>parseInt\<close> and decimal digits\<close>

lemma digit_not_white_space: "is_digit c \<Longrightarrow> \<not> is_white_space c"
  by (auto simp: is_digit_def is_white_space_def)

lemma digit_not_sign: "is_digit c \<Longrightarrow> c \<noteq> CHR ''+'' \<and> c \<noteq> CHR ''-''"
  by (auto simp: is_digit_def)

lemma sign_not_white_space: "\<not> is_white_space CHR ''+''" "\<not> is_white_space CHR ''-''"
  by (simp_all add: is_white_space_def)

lemma takeWhile_digit_prefix:
  assumes "list_all is_digit ds" and "rest = [] \<or> \<not> is_digit (hd rest)"
  shows "takeWhile is_digit (ds @ rest) = ds"
proof -
  have "takeWhile is_digit rest = []"
    using assms(2) by (cases rest) auto
  moreover have "\<And>x. x \<in> set ds \<Longrightarrow> is_digit x"
    using assms(1) by (simp add: list_all_iff)
  ultimately show ?thesis
    by (simp add: takeWhile_append2)
qed

lemma dropWhile_white_space_prefix:
  assumes "list_all is_white_space ws" and "xs \<noteq> []" and "\<not> is_white_space (hd xs)"
  shows "dropWhile is_white_space (ws @ xs) = xs"
proof -
  have "\<And>x. x \<in> set ws \<Longrightarrow> is_white_space x"
    using assms(1) by (simp add: list_all_iff)
  then have "dropWhile is_white_space (ws @ xs) = dropWhile is_white_space xs"
    by (simp add: dropWhile_append2)
  also have "\<dots> = xs"
    using assms(2,3) by (cases xs) auto
  finally show ?thesis .
qed

lemma parseInt10_digit_prefix:
  assumes ws: "list_all is_white_space ws"
    and sign: "sign \<in> {[], ''+'', ''-''}"
    and ds: "ds \<noteq> []" "list_all is_digit ds"
    and rest: "rest = [] \<or> \<not> is_digit (hd rest)"
  shows "parseInt10 (ws @ sign @ ds @ rest) = Number_of_int (signed_value sign ds)"
proof -
  obtain d ds' where d: "ds = d # ds'" using ds(1) by (cases ds) auto
  have dd: "is_digit d" using ds(2) d by simp
  have tw: "takeWhile is_digit (ds @ rest) = ds"
    using ds(2) rest by (rule takeWhile_digit_prefix)
  have nw: "sign @ ds @ rest \<noteq> [] \<and> \<not> is_white_space (hd (sign @ ds @ rest))"
    using sign d dd by (auto simp: digit_not_white_space sign_not_white_space)
  have dw: "dropWhile is_white_space (ws @ sign @ ds @ rest) = sign @ ds @ rest"
    using ws nw by (simp add: dropWhile_white_space_prefix)
  consider "sign = []" | "sign = ''+''" | "sign = ''-''" using sign by auto
  then show ?thesis
  proof cases
    case 1
    have "dropWhile is_white_space (ws @ ds @ rest) = d # ds' @ rest"
      using dw 1 d by simp
    then show ?thesis
      using tw digit_not_sign [OF dd] d
      by (simp add: parseInt10_def 1 Let_def signed_value_def)
  next
    case 2
    have "dropWhile is_white_space (ws @ CHR ''+'' # ds @ rest) = CHR ''+'' # ds @ rest"
      using dw 2 by simp
    then show ?thesis
      using tw ds(1) by (simp add: parseInt10_def 2 Let_def signed_value_def)
  next
    case 3
    have "dropWhile is_white_space (ws @ CHR ''-'' # ds @ rest) = CHR ''-'' # ds @ rest"
      using dw 3 by simp
    then show ?thesis
      using tw ds(1) by (simp add: parseInt10_def 3 Let_def signed_value_def)
  qed
qed

lemma digit_val_digit_char: "d < 10 \<Longrightarrow> digit_val (digit_char d) = d"
proof -
  assume "d < 10"
  then consider "d = 0" | "d = 1" | "d = 2" | "d = 3" | "d = 4" | "d = 5" | "d = 6" | "d = 7"
    | "d = 8" | "d = 9" by atomize_elim arith
  then show ?thesis
    by cases (simp_all add: digit_val_def digit_char_def)
qed

lemma is_digit_digit_char: "d < 10 \<Longrightarrow> is_digit (digit_char d)"
proof -
  assume "d < 10"
  then consider "d = 0" | "d = 1" | "d = 2" | "d = 3" | "d = 4" | "d = 5" | "d = 6" | "d = 7"
    | "d = 8" | "d = 9" by atomize_elim arith
  then show ?thesis
    by cases (simp_all add: is_digit_def digit_char_def)
qed

lemma digits_value_snoc: "digits_value (xs @ [c]) = 10 * digits_value xs + digit_val c"
  by (simp add: digits_value_def)

lemma digits_value_decimal: "digits_value (decimal n) = n"
proof (induction n rule: decimal.induct)
  case (1 n)
  show ?case
  proof (cases "n < 10")
    case True
    then show ?thesis
      by (simp add: decimal_small digits_value_def digit_val_digit_char)
  next
    case False
    then have "decimal n = decimal (n div 10) @ [digit_char (n mod 10)]"
      by (subst decimal.simps) simp
    then show ?thesis
      using 1 [OF False] by (simp add: digits_value_snoc digit_val_digit_char)
  qed
qed

lemma decimal_digits: "list_all is_digit (decimal n)"
proof (induction n rule: decimal.induct)
  case (1 n)
  show ?case
  proof (cases "n < 10")
    case True
    then show ?thesis by (simp add: decimal_small is_digit_digit_char)
  next
    case False
    then have "decimal n = decimal (n div 10) @ [digit_char (n mod 10)]"
      by (subst decimal.simps) simp
    then show ?thesis
      using 1 [OF False] by (simp add: is_digit_digit_char)
  qed
qed

lemma decimal_not_Nil: "decimal n \<noteq> []"
  by (subst decimal.simps) simp

lemma decimal_inj: "decimal m = decimal n \<Longrightarrow> m = n"
  by (metis digits_value_decimal)

lemma decimal_no_minus: "decimal n \<noteq> CHR ''-'' # xs"
proof
  assume "decimal n = CHR ''-'' # xs"
  then have "is_digit CHR ''-''"
    using decimal_digits [of n] by simp
  then show False by (simp add: is_digit_def)
qed

lemma decimal_int_inj: "decimal_int i = decimal_int j \<Longrightarrow> i = j"
  using decimal_no_minus decimal_no_minus [symmetric]
  by (auto simp: decimal_int_def dest!: decimal_inj split: if_splits)

section \<open>Submitting a vote\<close>

lemma signed_value_apply_sign: "signed_value sign ds = apply_sign sign (digits_value ds)"
  by (simp add: signed_value_def apply_sign_def)

lemma abs_apply_sign: "\<bar>apply_sign sign m\<bar> = int m"
  by (simp add: apply_sign_def)

lemma bit_length_bounds: "0 < n \<Longrightarrow> 2 ^ (bit_length n - 1) \<le> n \<and> n < 2 ^ bit_length n"
proof (induction n rule: bit_length.induct)
  case (1 n)
  show ?case
  proof (cases "n div 2 = 0")
    case True
    with 1(2) have "n = 1" by (simp add: div_eq_0_iff) 
    then show ?thesis by (simp add: bit_length.simps)
  next
    case False
    then have p: "0 < n div 2" by simp
    from 1(2) have nz: "n \<noteq> 0" by simp
    have ih: "2 ^ (bit_length (n div 2) - 1) \<le> n div 2 \<and> n div 2 < 2 ^ bit_length (n div 2)"
      using 1(1) [OF nz p] .
    have bl: "bit_length n = Suc (bit_length (n div 2))"
      using nz by (subst bit_length.simps) simp
    have pos: "0 < bit_length (n div 2)"
      using p by (subst bit_length.simps) simp
    then obtain k where k: "bit_length (n div 2) = Suc k" by (cases "bit_length (n div 2)") auto
    from ih show ?thesis
      unfolding bl k by (simp; linarith)
  qed
qed

lemma round_f64_overflow:
  assumes "2 ^ 1024 \<le> n"
  shows "round_f64 n = None"
proof -
  define b where "b = bit_length n"
  define e where "e = b - 53"
  have n0: "0 < n" using assms by (metis zero_less_numeral zero_less_power less_le_trans)
  have bb: "2 ^ (b - 1) \<le> n" "n < 2 ^ b"
    using bit_length_bounds [OF n0] by (simp_all add: b_def)
  have lt: "(2::nat) ^ 1024 < 2 ^ b" using assms bb(2) by linarith
  have b: "1024 < b" by (rule power_less_imp_less_exp [OF _ lt]) simp
  have eb: "e + 53 = b" using b by (simp add: e_def)
  have "(2::nat) ^ (b - 1) = 2 ^ 52 * 2 ^ e"
  proof -
    have "b - 1 = 52 + e" using eb by simp
    then show ?thesis by (simp only: power_add)
  qed
  then have "2 ^ 52 * 2 ^ e \<le> n" using bb(1) by simp
  then have q: "2 ^ 52 \<le> n div 2 ^ e"
    by (simp add: less_eq_div_iff_mult_less_eq)
  define q' where "q' = (if 2 ^ (e - 1) < n mod 2 ^ e \<or> (n mod 2 ^ e = 2 ^ (e - 1) \<and> odd (n div 2 ^ e))
      then n div 2 ^ e + 1 else n div 2 ^ e)"
  have "2 ^ 52 \<le> q'" using q by (simp add: q'_def)
  then have "2 ^ 52 * 2 ^ e \<le> q' * 2 ^ e" by (rule mult_le_mono1)
  moreover have "(2::nat) ^ 1024 \<le> 2 ^ 52 * 2 ^ e"
  proof -
    have "1024 \<le> 52 + e" using b eb by simp
    then have "(2::nat) ^ 1024 \<le> 2 ^ (52 + e)" by (rule power_increasing) simp
    then show ?thesis by (simp only: power_add)
  qed
  ultimately have v: "\<not> q' * 2 ^ e < 2 ^ 1024" by linarith
  have big: "\<not> n < 2 ^ 53"
  proof -
    have "(2::nat) ^ 53 \<le> 2 ^ 1024" by (rule power_increasing) simp_all
    with assms show ?thesis by linarith
  qed
  show ?thesis
    using v big unfolding round_f64_def Let_def q'_def e_def b_def by (simp only: if_False)
qed

lemma round_f64_small: "round_f64 0 = Some m \<Longrightarrow> m = 0"
  by (simp add: round_f64_def)

lemma nat_abs_apply_sign: "nat \<bar>apply_sign sign d\<bar> = d"
  by (simp add: apply_sign_def)

lemma Number_of_int_rounded:
  assumes "round_f64 d = Some m"
  shows "Number_of_int (apply_sign sign d) = Finite (of_int (apply_sign sign m))"
proof (cases "d = 0")
  case True
  with assms have "m = 0" by (simp add: round_f64_small)
  with True assms show ?thesis
    by (simp add: Number_of_int_def apply_sign_def)
next
  case False
  with assms show ?thesis
    by (simp add: Number_of_int_def nat_abs_apply_sign) (simp add: apply_sign_def)
qed

lemma Number_of_int_overflow:
  assumes "round_f64 d = None"
  shows "Number_of_int (apply_sign sign d) = PosInfinity
       \<or> Number_of_int (apply_sign sign d) = NegInfinity"
  using assms by (simp add: Number_of_int_def nat_abs_apply_sign)

lemma JSON_stringify_exact:
  \<open>\<bar>i\<bar> \<le> 2 ^ 53 \<Longrightarrow>
     JSON_stringify digits \<lparr>option_id = Finite (of_int i)\<rparr> = ''{"option_id":'' @ decimal_int i @ ''}''\<close>
  by (simp add: JSON_stringify_def JSON_number_def Number_toString_def is_exact_int_of_int)

lemma JSON_stringify_inexact:
  \<open>\<not> \<bar>i\<bar> \<le> 2 ^ 53 \<Longrightarrow>
     JSON_stringify digits \<lparr>option_id = Finite (of_int i)\<rparr>
       = ''{"option_id":'' @ digits (of_int i) @ ''}''\<close>
proof -
  assume a: "\<not> \<bar>i\<bar> \<le> 2 ^ 53"
  have "\<bar>(of_int i :: rat)\<bar> \<le> 2 ^ 53 \<longleftrightarrow> \<bar>i\<bar> \<le> 2 ^ 53"
  proof -
    have "\<bar>(of_int i :: rat)\<bar> = of_int \<bar>i\<bar>" by simp
    moreover have "(2 :: rat) ^ 53 = of_int (2 ^ 53)" by simp
    ultimately show ?thesis by (simp only: of_int_le_iff)
  qed
  with a have "\<not> is_exact_int (of_int i)"
    by (simp add: is_exact_int_def)
  then show ?thesis
    by (simp add: JSON_stringify_def JSON_number_def Number_toString_def)
qed

lemma JSON_stringify_not_finite:
  \<open>x = NaN \<or> x = PosInfinity \<or> x = NegInfinity \<Longrightarrow>
     JSON_stringify digits \<lparr>option_id = x\<rparr> = ''{"option_id":null}''\<close>
  by (auto simp: JSON_stringify_def JSON_number_def)

lemma JSON_stringify_exact_inj:
  assumes "\<bar>i\<bar> \<le> 2 ^ 53" and "\<bar>j\<bar> \<le> 2 ^ 53"
    and "JSON_stringify digits \<lparr>option_id = Finite (of_int i)\<rparr>
         = JSON_stringify digits \<lparr>option_id = Finite (of_int j)\<rparr>"
  shows "i = j"
proof -
  have "decimal_int i = decimal_int j"
    using assms by (simp add: JSON_stringify_exact)
  then show ?thesis by (rule decimal_int_inj)
qed

lemma submit_settle:
  assumes "submit \<in> {poll_api_submitVote, submitVote}"
  shows "submit h pollId optionId token s =
      (settle (number_digits h) (fst (fetch h (vote_request h pollId optionId token) (network s))),
       after_fetch h (vote_request h pollId optionId token) s)"
  using assms by (auto simp: poll_api_submitVote_settle submitVote_settle)

lemma digits_value_append_zeros:
  "digits_value (ds @ replicate k CHR ''0'') = digits_value ds * 10 ^ k"
proof (induction k)
  case 0
  then show ?case by simp
next
  case (Suc k)
  have "ds @ replicate (Suc k) CHR ''0'' = (ds @ replicate k CHR ''0'') @ [CHR ''0'']"
    by (simp add: replicate_append_same)
  then show ?case
    using Suc by (simp only: digits_value_snoc) (simp add: digit_val_def)
qed

lemma vote_request_body_digit_prefix:
  assumes "list_all is_white_space ws"
    and "sign \<in> {[], ''+'', ''-''}"
    and "ds \<noteq> []" and "list_all is_digit ds"
    and "rest = [] \<or> \<not> is_digit (hd rest)"
  shows "body (vote_request h pollId (ws @ sign @ ds @ rest) token)
      = Some (JSON_stringify (number_digits h)
                \<lparr>option_id = Number_of_int (apply_sign sign (digits_value ds))\<rparr>)"
  using parseInt10_digit_prefix [OF assms]
  by (simp add: vote_request_def signed_value_apply_sign)

lemma recording_option_5_echoes:
  assumes \<open>body req = Some ''{"option_id":5}''\<close>
  shows "echoes_option_id recording_option_5 req w"
  unfolding echoes_option_id_def
proof (intro allI impI)
  fix response payload
  assume a: "fst (fetch recording_option_5 req w) = Inr response \<and> ok response
      \<and> json response = Inr payload"
  have d: "decimal_int 5 = ''5''"
    by (simp add: decimal_int_def decimal.simps digit_char_def)
  have j: \<open>JSON_stringify digits \<lparr>option_id = Finite (of_int 5)\<rparr> = ''{"option_id":5}''\<close> for digits
    using JSON_stringify_exact [of 5 digits] d by simp
  from a assms have "get_property payload ''option_id'' = Inr (JNum (Finite (of_int 5)))"
    by (auto simp: recording_option_5_def)
  with assms j show "\<exists>i. \<bar>i\<bar> \<le> 2 ^ 53
      \<and> get_property payload ''option_id'' = Inr (JNum (Finite (of_int i)))
      \<and> body req = Some (JSON_stringify (number_digits recording_option_5)
                          \<lparr>option_id = Finite (of_int i)\<rparr>)"
    by (intro exI [of _ 5]) simp
qed

text \<open>
  C4, as amended. Every call \<^verbatim>\<open>submitVote(pollId, optionId, token)\<close> (either
  definition) applies \<^verbatim>\<open>fetch\<close> exactly once: the world after the call is the one that
  single application leaves, with the one request added to the calls made, and what
  \<^verbatim>\<open>fetch\<close> answers decides what the call settles to. The request is a \<^verbatim>\<open>POST\<close> to
  \<^verbatim>\<open>http://localhost:8000/polls/{pollId}/vote\<close> with the headers
  \<^verbatim>\<open>Content-Type: application/json\<close> and \<^verbatim>\<open>Authorization: Bearer {token}\<close> (the
  token verbatim), whose body is the JSON serialisation of
  \<^verbatim>\<open>{option_id: parseInt(optionId, 10)}\<close>. When \<^verbatim>\<open>optionId\<close> parses to an integer of
  magnitude at most \<open>2 ^ 53\<close>, the body carries that integer. Nothing is validated: the
  request is made for every \<^verbatim>\<open>optionId\<close>, and when \<^verbatim>\<open>optionId\<close> does not parse, the
  payload holds \<^verbatim>\<open>NaN\<close>, which goes out as \<^verbatim>\<open>{"option_id":null}\<close>.
\<close>

theorem submitVote_request:
  assumes "submit \<in> {poll_api_submitVote, submitVote}"
  shows \<open>vote_request h pollId optionId token =
       \<lparr>url = ''http://localhost:8000/polls/'' @ pollId @ ''/vote'',
        method' = ''POST'',
        headers = [(''Content-Type'', ''application/json''),
                   (''Authorization'', ''Bearer '' @ token)],
        body = Some (JSON_stringify (number_digits h) \<lparr>option_id = parseInt10 optionId\<rparr>)\<rparr>
   \<and> snd (submit h pollId optionId token s) =
       \<lparr>network = snd (fetch h (vote_request h pollId optionId token) (network s)),
        fetch_calls = fetch_calls s @ [vote_request h pollId optionId token]\<rparr>
   \<and> (\<forall>response voteData.
          fst (fetch h (vote_request h pollId optionId token) (network s)) = Inr response
          \<and> ok response \<and> json response = Inr voteData
        \<longrightarrow> fst (submit h pollId optionId token s) = Inr voteData)
   \<and> (\<forall>e. fst (fetch h (vote_request h pollId optionId token) (network s))
            = Inl (ErrorInstance e)
        \<longrightarrow> fst (submit h pollId optionId token s) = Inl (ErrorInstance e))
   \<and> (\<forall>i. parseInt10 optionId = Finite (of_int i) \<and> \<bar>i\<bar> \<le> 2 ^ 53
        \<longrightarrow> JSON_stringify (number_digits h) \<lparr>option_id = parseInt10 optionId\<rparr>
            = ''{"option_id":'' @ decimal_int i @ ''}'')
   \<and> (parseInt10 optionId = NaN
        \<longrightarrow> JSON_stringify (number_digits h) \<lparr>option_id = parseInt10 optionId\<rparr>
            = ''{"option_id":null}'')\<close>
  unfolding submit_settle [OF assms]
  by (simp add: after_fetch_def vote_request_def JSON_stringify_exact JSON_stringify_not_finite
      settle_ok settle_fetch_throws_Error)

theorem submitVote_request_witness:
  \<open>submitVote (counting (Inl (ErrorInstance (JsError ''TypeError'' ''Failed to fetch''))))
      ''123'' ''456'' ''your-jwt-token'' \<lparr>network = 0, fetch_calls = []\<rparr>
     = (Inl (ErrorInstance (JsError ''TypeError'' ''Failed to fetch'')),
        \<lparr>network = 1,
         fetch_calls =
           [\<lparr>url = ''http://localhost:8000/polls/123/vote'',
             method' = ''POST'',
             headers = [(''Content-Type'', ''application/json''),
                        (''Authorization'', ''Bearer your-jwt-token'')],
             body = Some ''{"option_id":456}''\<rparr>]\<rparr>)
   \<and> snd (poll_api_submitVote
        (counting (Inl (ErrorInstance (JsError ''TypeError'' ''Failed to fetch''))))
        ''123'' ''abc'' ''your-jwt-token'' \<lparr>network = 0, fetch_calls = []\<rparr>)
     = \<lparr>network = 1,
        fetch_calls =
          [\<lparr>url = ''http://localhost:8000/polls/123/vote'',
            method' = ''POST'',
            headers = [(''Content-Type'', ''application/json''),
                       (''Authorization'', ''Bearer your-jwt-token'')],
            body = Some ''{"option_id":null}''\<rparr>]\<rparr>\<close>
proof -
  let ?h = "counting (Inl (ErrorInstance (JsError ''TypeError'' ''Failed to fetch'')))"
  let ?s = "\<lparr>network = 0 :: nat, fetch_calls = []\<rparr>"
  have s1: "(submitVote :: nat host \<Rightarrow> _) \<in> {poll_api_submitVote, submitVote}"
    and s2: "(poll_api_submitVote :: nat host \<Rightarrow> _) \<in> {poll_api_submitVote, submitVote}"
    by simp_all
  note t1 = submitVote_request [OF s1, of ?h "''123''" "''456''" "''your-jwt-token''" ?s]
  note t2 = submitVote_request [OF s2, of ?h "''123''" "''abc''" "''your-jwt-token''" ?s]
  have p: "parseInt10 ''456'' = Finite (of_int 456)"
    by (simp add: parseInt10_def is_white_space_def is_digit_def digits_value_def
        digit_val_def Number_of_int_def round_f64_def)
  have q: "parseInt10 ''abc'' = NaN"
    by (simp add: parseInt10_def is_white_space_def is_digit_def)
  have d: "decimal_int 456 = ''456''"
    by (simp add: decimal_int_def decimal.simps digit_char_def)
  have f: "fetch ?h req n = (Inl (ErrorInstance (JsError ''TypeError'' ''Failed to fetch'')), Suc n)"
    for req n
    by (simp add: counting_def)
  have b1: \<open>JSON_stringify (number_digits ?h) \<lparr>option_id = parseInt10 ''456''\<rparr>
      = ''{"option_id":456}''\<close>
    using t1 p d by simp
  have b2: \<open>JSON_stringify (number_digits ?h) \<lparr>option_id = parseInt10 ''abc''\<rparr>
      = ''{"option_id":null}''\<close>
    using t2 q by simp
  have r1: "fst (submitVote ?h ''123'' ''456'' ''your-jwt-token'' ?s)
      = Inl (ErrorInstance (JsError ''TypeError'' ''Failed to fetch''))"
    using t1 by (simp add: f)
  have w1: \<open>snd (submitVote ?h ''123'' ''456'' ''your-jwt-token'' ?s)
      = \<lparr>network = 1,
         fetch_calls =
           [\<lparr>url = ''http://localhost:8000/polls/123/vote'',
             method' = ''POST'',
             headers = [(''Content-Type'', ''application/json''),
                        (''Authorization'', ''Bearer your-jwt-token'')],
             body = Some ''{"option_id":456}''\<rparr>]\<rparr>\<close>
    using t1 b1 by (simp add: f)
  have w2: \<open>snd (poll_api_submitVote ?h ''123'' ''abc'' ''your-jwt-token'' ?s)
      = \<lparr>network = 1,
         fetch_calls =
           [\<lparr>url = ''http://localhost:8000/polls/123/vote'',
             method' = ''POST'',
             headers = [(''Content-Type'', ''application/json''),
                        (''Authorization'', ''Bearer your-jwt-token'')],
             body = Some ''{"option_id":null}''\<rparr>]\<rparr>\<close>
    using t2 b2 by (simp add: f)
  from r1 w1 w2 show ?thesis
    by (simp add: prod_eq_iff)
qed

text \<open>
  C4 as stated fails for an integer beyond \<open>2 ^ 53\<close>: the option identifier
  \<^verbatim>\<open>9007199254740993\<close> is a base-10 integer, and the body carries
  \<open>9007199254740992\<close>.
\<close>

theorem integer_beyond_2_53_counterexample:
  \<open>list_all is_digit ''9007199254740993''
   \<and> digits_value ''9007199254740993'' = 9007199254740993
   \<and> fetch_calls (snd (poll_api_submitVote (answering (Inl (NonError JUndefined))) ''1''
        ''9007199254740993'' ''token'' fresh))
       = [\<lparr>url = ''http://localhost:8000/polls/1/vote'',
           method' = ''POST'',
           headers = [(''Content-Type'', ''application/json''),
                      (''Authorization'', ''Bearer token'')],
           body = Some ''{"option_id":9007199254740992}''\<rparr>]
   \<and> ''{"option_id":9007199254740992}'' \<noteq> ''{"option_id":9007199254740993}''\<close>
proof -
  have p: "parseInt10 ''9007199254740993'' = Finite 9007199254740992"
    by (simp add: parseInt10_def is_white_space_def is_digit_def digits_value_def digit_val_def
        Number_of_int_def round_f64_def bit_length.simps Let_def)
  have d: "decimal_int 9007199254740992 = ''9007199254740992''"
    by (simp add: decimal_int_def decimal.simps digit_char_def)
  have j: \<open>JSON_stringify digits \<lparr>option_id = Finite 9007199254740992\<rparr>
      = ''{"option_id":9007199254740992}''\<close> for digits
    using JSON_stringify_exact [of 9007199254740992 digits] d by simp
  have v: "digits_value ''9007199254740993'' = 9007199254740993"
    by (simp add: digits_value_def digit_val_def)
  show ?thesis
    by (simp add: poll_api_submitVote_settle after_fetch_def vote_request_def fresh_def p j v
        is_digit_def)
qed

text \<open>
  C10, as amended. For every option identifier made of optional white space, an optional
  sign, one or more decimal digits and then anything that does not start with a digit
  (for example \<^verbatim>\<open>12abc\<close>), \<^verbatim>\<open>parseInt\<close> reads the signed digit prefix and ignores
  the rest, and \<^verbatim>\<open>submitVote\<close> (either definition) raises no error of its own: it makes
  its one request, and returns the decoded body when the answer is a success. The body
  of the request is

  \<^item> \<^verbatim>\<open>{"option_id":n}\<close> with \<open>n\<close> the signed value of the digit prefix in decimal
    digits, whenever that value has magnitude at most \<open>2 ^ 53\<close>;
  \<^item> for a longer digit prefix, the digits of the double it rounds to: in decimal when
    that double is \<open>2 ^ 53\<close> itself, otherwise as the engine prints it;
  \<^item> \<^verbatim>\<open>{"option_id":null}\<close> when the digit prefix rounds beyond the range of a double,
    as every prefix of value \<open>2 ^ 1024\<close> or more does.
\<close>

theorem submitVote_sends_digit_prefix:
  assumes "submit \<in> {poll_api_submitVote, submitVote}"
    and "list_all is_white_space ws"
    and "sign \<in> {[], ''+'', ''-''}"
    and "ds \<noteq> []" and "list_all is_digit ds"
    and "rest = [] \<or> \<not> is_digit (hd rest)"
    and "optionId = ws @ sign @ ds @ rest"
  shows \<open>parseInt10 optionId = Number_of_int (signed_value sign ds)
       \<and> snd (submit h pollId optionId token s) =
           \<lparr>network = snd (fetch h (vote_request h pollId optionId token) (network s)),
            fetch_calls = fetch_calls s @ [vote_request h pollId optionId token]\<rparr>
       \<and> url (vote_request h pollId optionId token)
           = ''http://localhost:8000/polls/'' @ pollId @ ''/vote''
       \<and> method' (vote_request h pollId optionId token) = ''POST''
       \<and> (\<bar>signed_value sign ds\<bar> \<le> 2 ^ 53
            \<longrightarrow> body (vote_request h pollId optionId token)
                = Some (''{"option_id":'' @ decimal_int (signed_value sign ds) @ ''}''))
       \<and> (\<forall>m. round_f64 (digits_value ds) = Some m
            \<longrightarrow> body (vote_request h pollId optionId token)
                = Some (''{"option_id":''
                        @ (if m \<le> 2 ^ 53 then decimal_int (apply_sign sign m)
                           else number_digits h (of_int (apply_sign sign m)))
                        @ ''}''))
       \<and> (round_f64 (digits_value ds) = None \<or> 2 ^ 1024 \<le> digits_value ds
            \<longrightarrow> body (vote_request h pollId optionId token) = Some ''{"option_id":null}'')
       \<and> (\<forall>response voteData.
             fst (fetch h (vote_request h pollId optionId token) (network s)) = Inr response
             \<and> ok response \<and> json response = Inr voteData
           \<longrightarrow> fst (submit h pollId optionId token s) = Inr voteData)\<close>
proof -
  have p: "parseInt10 optionId = Number_of_int (signed_value sign ds)"
    unfolding assms(7) using assms(2-6) by (rule parseInt10_digit_prefix)
  have b: "body (vote_request h pollId optionId token)
      = Some (JSON_stringify (number_digits h)
                \<lparr>option_id = Number_of_int (apply_sign sign (digits_value ds))\<rparr>)"
    unfolding assms(7) using assms(2-6) by (rule vote_request_body_digit_prefix)
  have exact: \<open>body (vote_request h pollId optionId token)
      = Some (''{"option_id":'' @ decimal_int (signed_value sign ds) @ ''}'')\<close>
    if "\<bar>signed_value sign ds\<bar> \<le> 2 ^ 53"
    using that
    by (simp add: b Number_of_int_exact JSON_stringify_exact flip: signed_value_apply_sign)
  have rounded: \<open>body (vote_request h pollId optionId token)
      = Some (''{"option_id":''
              @ (if m \<le> 2 ^ 53 then decimal_int (apply_sign sign m)
                 else number_digits h (of_int (apply_sign sign m)))
              @ ''}'')\<close>
    if r: "round_f64 (digits_value ds) = Some m" for m
  proof (cases "m \<le> 2 ^ 53")
    case True
    then have "\<bar>apply_sign sign m\<bar> \<le> 2 ^ 53"
      unfolding abs_apply_sign by (metis of_nat_le_iff of_nat_numeral of_nat_power)
    then show ?thesis
      using True by (simp add: b Number_of_int_rounded [OF r] JSON_stringify_exact)
  next
    case False
    then have "\<not> \<bar>apply_sign sign m\<bar> \<le> 2 ^ 53"
      unfolding abs_apply_sign by (metis of_nat_le_iff of_nat_numeral of_nat_power)
    then show ?thesis
      using False by (simp add: b Number_of_int_rounded [OF r] JSON_stringify_inexact)
  qed
  have overflow: \<open>body (vote_request h pollId optionId token) = Some ''{"option_id":null}''\<close>
    if "round_f64 (digits_value ds) = None \<or> 2 ^ 1024 \<le> digits_value ds"
  proof -
    from that have "round_f64 (digits_value ds) = None"
      using round_f64_overflow by blast
    then have "Number_of_int (apply_sign sign (digits_value ds)) = PosInfinity
        \<or> Number_of_int (apply_sign sign (digits_value ds)) = NegInfinity"
      by (rule Number_of_int_overflow)
    then show ?thesis
      by (simp add: b JSON_stringify_not_finite)
  qed
  have c: "submit h pollId optionId token s =
      (settle (number_digits h) (fst (fetch h (vote_request h pollId optionId token) (network s))),
       after_fetch h (vote_request h pollId optionId token) s)"
    using assms(1) by (rule submit_settle)
  have run: "snd (submit h pollId optionId token s) =
           \<lparr>network = snd (fetch h (vote_request h pollId optionId token) (network s)),
            fetch_calls = fetch_calls s @ [vote_request h pollId optionId token]\<rparr>"
    "\<forall>response voteData.
             fst (fetch h (vote_request h pollId optionId token) (network s)) = Inr response
             \<and> ok response \<and> json response = Inr voteData
           \<longrightarrow> fst (submit h pollId optionId token s) = Inr voteData"
    unfolding c by (simp_all add: after_fetch_def settle_ok)
  have u: "url (vote_request h pollId optionId token)
           = ''http://localhost:8000/polls/'' @ pollId @ ''/vote''"
    "method' (vote_request h pollId optionId token) = ''POST''"
    by (simp_all add: vote_request_def)
  from p run u exact rounded overflow show ?thesis
    by blast
qed

theorem submitVote_sends_digit_prefix_witness:
  \<open>parseInt10 ''12abc'' = Finite 12
   \<and> body (vote_request (answering (Inl (NonError JUndefined))) ''1'' ''12abc'' ''token'')
       = Some ''{"option_id":12}''
   \<and> body (vote_request (answering (Inl (NonError JUndefined))) ''1'' '' -5th'' ''token'')
       = Some ''{"option_id":-5}''
   \<and> body (vote_request (answering (Inl (NonError JUndefined))) ''1''
          (''1'' @ replicate 309 CHR ''0'') ''token'')
       = Some ''{"option_id":null}''
   \<and> fst (poll_api_submitVote recording_option_5 ''1'' ''5th'' ''token'' fresh)
       = Inr (JObj [(''id'', JNum (Finite 31)), (''user_id'', JNum (Finite 4)),
                    (''option_id'', JNum (Finite 5)),
                    (''created_at'', JStr ''2025-01-01T00:00:00'')])\<close>
proof -
  let ?a = "answering (Inl (NonError JUndefined))"
  have v: "signed_value [] ''12'' = 12" "signed_value ''-'' ''5'' = - 5" "signed_value [] ''5'' = 5"
    by (simp_all add: signed_value_def digits_value_def digit_val_def)
  have d: "decimal_int 12 = ''12''" "decimal_int 5 = ''5''" "decimal_int (- 5) = ''-5''"
    by (simp_all add: decimal_int_def decimal.simps digit_char_def)
  have s1: "(submitVote :: unit host \<Rightarrow> _) \<in> {poll_api_submitVote, submitVote}"
    and s2: "(poll_api_submitVote :: unit host \<Rightarrow> _) \<in> {poll_api_submitVote, submitVote}"
    by simp_all
  have w0: "list_all is_white_space []" and w1: "list_all is_white_space '' ''"
    by (simp_all add: is_white_space_def)
  have g0: "[] \<in> {[], ''+'', ''-''}" and g1: "''-'' \<in> {[], ''+'', ''-''}"
    by simp_all
  have n12: "''12'' \<noteq> []" and n5: "''5'' \<noteq> []"
    and nbig: "''1'' @ replicate 309 CHR ''0'' \<noteq> []"
    by simp_all
  have d12: "list_all is_digit ''12''" and d5: "list_all is_digit ''5''"
    and dbig: "list_all is_digit (''1'' @ replicate 309 CHR ''0'')"
    by (simp_all add: is_digit_def list_all_iff)
  have rabc: "''abc'' = [] \<or> \<not> is_digit (hd ''abc'')"
    and rth: "''th'' = [] \<or> \<not> is_digit (hd ''th'')"
    and rnil: "([] :: string) = [] \<or> \<not> is_digit (hd [])"
    by (simp_all add: is_digit_def)
  have e1: "''12abc'' = [] @ [] @ ''12'' @ ''abc''"
    and e2: "'' -5th'' = '' '' @ ''-'' @ ''5'' @ ''th''"
    and e3: "''5th'' = [] @ [] @ ''5'' @ ''th''"
    and e4: "''1'' @ replicate 309 CHR ''0'' = [] @ [] @ (''1'' @ replicate 309 CHR ''0'') @ []"
    by simp_all
  note t1 = submitVote_sends_digit_prefix [OF s1 w0 g0 n12 d12 rabc e1,
      of ?a "''1''" "''token''" fresh]
  note t2 = submitVote_sends_digit_prefix [OF s1 w1 g1 n5 d5 rth e2,
      of ?a "''1''" "''token''" fresh]
  note t3 = submitVote_sends_digit_prefix [OF s2 w0 g0 n5 d5 rth e3,
      of recording_option_5 "''1''" "''token''" fresh]
  note t4 = submitVote_sends_digit_prefix [OF s1 w0 g0 nbig dbig rnil e4,
      of ?a "''1''" "''token''" fresh]
  have n: "Number_of_int 12 = Finite 12"
    using Number_of_int_exact [of 12] by simp
  have a: "parseInt10 ''12abc'' = Finite 12"
    using t1 by (simp add: v n)
  have b: \<open>body (vote_request ?a ''1'' ''12abc'' ''token'') = Some ''{"option_id":12}''\<close>
    using t1 by (simp add: v d)
  have c: \<open>body (vote_request ?a ''1'' '' -5th'' ''token'') = Some ''{"option_id":-5}''\<close>
    using t2 by (simp add: v d)
  have big: "(2::nat) ^ 1024 \<le> digits_value (''1'' @ replicate 309 CHR ''0'')"
    unfolding digits_value_append_zeros by (simp add: digits_value_def digit_val_def)
  have o: \<open>body (vote_request ?a ''1'' (''1'' @ replicate 309 CHR ''0'') ''token'')
      = Some ''{"option_id":null}''\<close>
    using t4 big by blast
  have r: \<open>body (vote_request recording_option_5 ''1'' ''5th'' ''token'') = Some ''{"option_id":5}''\<close>
    using t3 by (simp add: v d)
  have e: "fst (poll_api_submitVote recording_option_5 ''1'' ''5th'' ''token'' fresh)
       = Inr (JObj [(''id'', JNum (Finite 31)), (''user_id'', JNum (Finite 4)),
                    (''option_id'', JNum (Finite 5)),
                    (''created_at'', JStr ''2025-01-01T00:00:00'')])"
    using t3 r by (simp add: recording_option_5_def fresh_def)
  from a b c o e show ?thesis by simp
qed

text \<open>
  C10 as stated fails for a digit prefix beyond \<open>2 ^ 53\<close>: for
  \<^verbatim>\<open>9007199254740993abc\<close> the digit prefix has the value \<open>9007199254740993\<close>, and the
  request carries \<open>9007199254740992\<close>, the nearest double, which is not the
  serialisation of the value of the digit prefix.
\<close>

theorem digit_prefix_beyond_2_53_counterexample:
  \<open>list_all is_digit ''9007199254740993''
   \<and> \<not> is_digit (hd ''abc'')
   \<and> digits_value ''9007199254740993'' = 9007199254740993
   \<and> fetch_calls (snd (submitVote (answering (Inl (NonError JUndefined))) ''1''
        ''9007199254740993abc'' ''token'' fresh))
       = [\<lparr>url = ''http://localhost:8000/polls/1/vote'',
           method' = ''POST'',
           headers = [(''Content-Type'', ''application/json''),
                      (''Authorization'', ''Bearer token'')],
           body = Some ''{"option_id":9007199254740992}''\<rparr>]
   \<and> ''{"option_id":9007199254740992}''
       \<noteq> ''{"option_id":'' @ decimal (digits_value ''9007199254740993'') @ ''}''\<close>
proof -
  have p: "parseInt10 ''9007199254740993abc'' = Finite 9007199254740992"
    by (simp add: parseInt10_def is_white_space_def is_digit_def digits_value_def digit_val_def
        Number_of_int_def round_f64_def bit_length.simps Let_def)
  have d: "decimal_int 9007199254740992 = ''9007199254740992''"
    by (simp add: decimal_int_def decimal.simps digit_char_def)
  have j: \<open>JSON_stringify digits \<lparr>option_id = Finite 9007199254740992\<rparr>
      = ''{"option_id":9007199254740992}''\<close> for digits
    using JSON_stringify_exact [of 9007199254740992 digits] d by simp
  have v: "digits_value ''9007199254740993'' = 9007199254740993"
    by (simp add: digits_value_def digit_val_def)
  have e: "decimal 9007199254740993 = ''9007199254740993''"
    by (simp add: decimal.simps digit_char_def)
  show ?thesis
    by (simp add: submitVote_settle after_fetch_def vote_request_def fresh_def p j v e
        is_digit_def)
qed

text \<open>
  C3, as amended. A \<^verbatim>\<open>submitVote\<close> call (either definition) returns a value exactly
  when \<^verbatim>\<open>fetch\<close> answered its request with a success response whose body decodes, and
  the value is that decoded body, verbatim: the client does not compare it with the
  request. Its \<^verbatim>\<open>option_id\<close> therefore equals \<^verbatim>\<open>parseInt(optionId, 10)\<close> when the
  answer to this call's request echoes the option the request carries
  (\<open>echoes_option_id\<close>, for this request only) and \<^verbatim>\<open>optionId\<close> parses to an integer
  of magnitude at most \<open>2 ^ 53\<close>. The theorem after it runs a service that also
  serves poll results.
\<close>

theorem submitVote_returns_payload_verbatim:
  assumes "submit \<in> {poll_api_submitVote, submitVote}"
  shows "(fst (submit h pollId optionId token s) = Inr voteData \<longleftrightarrow>
            (\<exists>response. fst (fetch h (vote_request h pollId optionId token) (network s))
                 = Inr response
               \<and> ok response \<and> json response = Inr voteData))
       \<and> (echoes_option_id h (vote_request h pollId optionId token) (network s)
            \<and> (\<exists>i. parseInt10 optionId = Finite (of_int i) \<and> \<bar>i\<bar> \<le> 2 ^ 53)
            \<and> fst (submit h pollId optionId token s) = Inr voteData
          \<longrightarrow> get_property voteData ''option_id'' = Inr (JNum (parseInt10 optionId)))"
proof -
  have c: "fst (submit h pollId optionId token s) =
      settle (number_digits h) (fst (fetch h (vote_request h pollId optionId token) (network s)))"
    using submit_settle [OF assms, of h pollId optionId token s] by simp
  have verbatim: "fst (submit h pollId optionId token s) = Inr voteData \<longleftrightarrow>
      (\<exists>response. fst (fetch h (vote_request h pollId optionId token) (network s)) = Inr response
         \<and> ok response \<and> json response = Inr voteData)"
    unfolding c by (rule settle_Inr_iff)
  have echo: "get_property voteData ''option_id'' = Inr (JNum (parseInt10 optionId))"
    if e: "echoes_option_id h (vote_request h pollId optionId token) (network s)"
      and p: "parseInt10 optionId = Finite (of_int i)" "\<bar>i\<bar> \<le> 2 ^ 53"
      and r: "fst (submit h pollId optionId token s) = Inr voteData" for i
  proof -
    from r verbatim obtain response where
      f: "fst (fetch h (vote_request h pollId optionId token) (network s)) = Inr response"
        "ok response" "json response = Inr voteData"
      by blast
    with e obtain j where j: "\<bar>j\<bar> \<le> 2 ^ 53"
      "get_property voteData ''option_id'' = Inr (JNum (Finite (of_int j)))"
      "body (vote_request h pollId optionId token)
         = Some (JSON_stringify (number_digits h) \<lparr>option_id = Finite (of_int j)\<rparr>)"
      unfolding echoes_option_id_def by blast
    from j(3) have "JSON_stringify (number_digits h) \<lparr>option_id = Finite (of_int i)\<rparr>
        = JSON_stringify (number_digits h) \<lparr>option_id = Finite (of_int j)\<rparr>"
      by (simp add: vote_request_def p(1))
    with p(2) j(1) have "i = j" by (rule JSON_stringify_exact_inj)
    with j(2) p(1) show ?thesis by simp
  qed
  from verbatim echo show ?thesis by blast
qed

theorem submitVote_returns_payload_verbatim_witness:
  "fst (submitVote recording_option_5 ''1'' ''5'' ''token'' fresh)
     = Inr (JObj [(''id'', JNum (Finite 31)), (''user_id'', JNum (Finite 4)),
                  (''option_id'', JNum (Finite 5)),
                  (''created_at'', JStr ''2025-01-01T00:00:00'')])
   \<and> get_property
        (JObj [(''id'', JNum (Finite 31)), (''user_id'', JNum (Finite 4)),
               (''option_id'', JNum (Finite 5)),
               (''created_at'', JStr ''2025-01-01T00:00:00'')]) ''option_id''
     = Inr (JNum (parseInt10 ''5''))
   \<and> fst (fetchPollResults recording_option_5 ''1'' fresh)
     = Inr (JObj [(''poll_id'', JNum (Finite 1)),
                  (''question'', JStr ''Tea?''),
                  (''results'',
                     JArr [JObj [(''option_id'', JNum (Finite 5)),
                                 (''text'', JStr ''yes''),
                                 (''vote_count'', JNum (Finite 1))]])])"
proof -
  have s1: "(submitVote :: unit host \<Rightarrow> _) \<in> {poll_api_submitVote, submitVote}"
    by simp
  note t = submitVote_returns_payload_verbatim [OF s1, of recording_option_5 "''1''" "''5''"
      "''token''" fresh
      "JObj [(''id'', JNum (Finite 31)), (''user_id'', JNum (Finite 4)),
             (''option_id'', JNum (Finite 5)),
             (''created_at'', JStr ''2025-01-01T00:00:00'')]"]
  have p: "parseInt10 ''5'' = Finite 5"
    by (simp add: parseInt10_def is_white_space_def is_digit_def digits_value_def digit_val_def
        Number_of_int_def round_f64_def)
  have d: "decimal_int 5 = ''5''"
    by (simp add: decimal_int_def decimal.simps digit_char_def)
  have r: \<open>body (vote_request recording_option_5 ''1'' ''5'' ''token'') = Some ''{"option_id":5}''\<close>
    using JSON_stringify_exact [of 5 "number_digits recording_option_5"]
    by (simp add: vote_request_def p d)
  have a: "fst (submitVote recording_option_5 ''1'' ''5'' ''token'' fresh)
     = Inr (JObj [(''id'', JNum (Finite 31)), (''user_id'', JNum (Finite 4)),
                  (''option_id'', JNum (Finite 5)),
                  (''created_at'', JStr ''2025-01-01T00:00:00'')])"
    using t r by (simp add: recording_option_5_def fresh_def)
  have i: "\<exists>i. parseInt10 ''5'' = Finite (of_int i) \<and> \<bar>i\<bar> \<le> 2 ^ 53"
    using p by (intro exI [of _ 5]) simp
  have e: "echoes_option_id recording_option_5
      (vote_request recording_option_5 ''1'' ''5'' ''token'') (network fresh)"
    using r by (rule recording_option_5_echoes)
  from t e i a
  have g: "get_property
        (JObj [(''id'', JNum (Finite 31)), (''user_id'', JNum (Finite 4)),
               (''option_id'', JNum (Finite 5)),
               (''created_at'', JStr ''2025-01-01T00:00:00'')]) ''option_id''
     = Inr (JNum (parseInt10 ''5''))"
    by blast
  have f: "fst (fetchPollResults recording_option_5 ''1'' fresh)
     = Inr (JObj [(''poll_id'', JNum (Finite 1)),
                  (''question'', JStr ''Tea?''),
                  (''results'',
                     JArr [JObj [(''option_id'', JNum (Finite 5)),
                                 (''text'', JStr ''yes''),
                                 (''vote_count'', JNum (Finite 1))]])])"
    by (simp add: fetchPollResults_settle results_request_def recording_option_5_def fresh_def
        settle_ok)
  from a g f show ?thesis by simp
qed

text \<open>
  C3 as stated fails when the service answers with another option: the call for option
  \<^verbatim>\<open>5\<close> succeeds and returns a record whose \<^verbatim>\<open>option_id\<close> is \<open>7\<close>.
\<close>

theorem server_option_id_counterexample:
  "fst (submitVote
          (answering (Inr \<lparr>ok = True, status = 200, statusText = ''OK'',
             json = Inr (JObj [(''id'', JNum (Finite 31)), (''user_id'', JNum (Finite 4)),
                               (''option_id'', JNum (Finite 7)),
                               (''created_at'', JStr ''2025-01-01T00:00:00'')])\<rparr>))
          ''1'' ''5'' ''token'' fresh)
     = Inr (JObj [(''id'', JNum (Finite 31)), (''user_id'', JNum (Finite 4)),
                  (''option_id'', JNum (Finite 7)),
                  (''created_at'', JStr ''2025-01-01T00:00:00'')])
   \<and> get_property
        (JObj [(''id'', JNum (Finite 31)), (''user_id'', JNum (Finite 4)),
               (''option_id'', JNum (Finite 7)),
               (''created_at'', JStr ''2025-01-01T00:00:00'')]) ''option_id''
     = Inr (JNum (Finite 7))
   \<and> parseInt10 ''5'' = Finite 5
   \<and> JNum (Finite 7) \<noteq> JNum (parseInt10 ''5'')"
proof -
  have p: "parseInt10 ''5'' = Finite 5"
    by (simp add: parseInt10_def is_white_space_def is_digit_def digits_value_def digit_val_def
        Number_of_int_def round_f64_def)
  show ?thesis
    by (simp add: p submitVote_settle settle_ok answering_def)
qed

end
